theory Spec2Isabelle
  imports Complex_Main
begin

section \<open>scripts/performance-boxplot.py: data model\<close>

text \<open>
  The script reads two JSON documents (master and current benchmark results), and for every
  category of the master document reshapes both data sets into one long table, draws a
  grouped boxplot and saves it as \<^verbatim>\<open><category>.png\<close> in the directory \<^verbatim>\<open>results\<close>.

  A Python \<^verbatim>\<open>dict\<close> is an association list in insertion order; the keys of a dict are
  distinct. A benchmark data set maps a category name to a dict from test names to the
  list of timing samples. Samples are JSON numbers.
\<close>

type_synonym sample = real
type_synonym 'v dict = "(string \<times> 'v) list"
type_synonym tests = "sample list dict"
type_synonym dataset = "tests dict"

datatype error =
    IndexError | KeyError | ValueError | JSONDecodeError | UnicodeDecodeError
  | FileNotFoundError | FileExistsError | IsADirectoryError | NotADirectoryError
  | PlotError

definition keys :: "'v dict \<Rightarrow> string list" where
  "keys d = map fst d"

definition dict_ok :: "'v dict \<Rightarrow> bool" where
  "dict_ok d = distinct (keys d)"

definition getitem :: "'v dict \<Rightarrow> string \<Rightarrow> error + 'v" where
  \<comment> \<open>\<^verbatim>\<open>d[k]\<close>: a missing key raises KeyError\<close>
  "getitem d k = (case map_of d k of None \<Rightarrow> Inl KeyError | Some v \<Rightarrow> Inr v)"

definition figure_width :: real where
  "figure_width = 15.5"

definition item_height :: real where
  "item_height = 0.6"

section \<open>The pandas operations the script calls\<close>

text \<open>
  \<^verbatim>\<open>pandas.DataFrame(d)\<close> on a dict of lists makes one column per key, in key order. The
  lists must all have the same length: pandas collects the set of the lengths and raises
  \<^verbatim>\<open>ValueError("All arrays must be of the same length")\<close> when it has more than one
  element. Nothing is padded. The row index is \<open>0, 1, ...\<close>.
\<close>

type_synonym wide = "(string \<times> sample list) list"

definition same_length :: "tests \<Rightarrow> bool" where
  "same_length data = (length (remdups (map (\<lambda>(name, values). length values) data)) \<le> 1)"

definition DataFrame :: "tests \<Rightarrow> error + wide" where
  "DataFrame data = (if same_length data then Inr data else Inl ValueError)"

text \<open>
  \<^verbatim>\<open>pandas.melt(df, var_name='Test', value_name='Time')\<close>: one row per cell, column after
  column, each column top to bottom, under a fresh index \<open>0, 1, ...\<close>. pandas refuses a
  \<^verbatim>\<open>value_name\<close> that is one of the columns: a test named \<^verbatim>\<open>Time\<close> raises
  \<^verbatim>\<open>ValueError\<close>. Then \<^verbatim>\<open>df['branch'] = label\<close> adds a constant column. A long table
  is the list of its rows, each with its index label. Samples keep their value; the number
  type pandas gives a column is not modelled.
\<close>

record row =
  Test :: string
  Time :: sample
  branch :: string

type_synonym frame = "(nat \<times> row) list"

definition unpivot :: "wide \<Rightarrow> (nat \<times> string \<times> sample) list" where
  \<comment> \<open>the rows of the melted table\<close>
  "unpivot df = enumerate 0 (concat (map (\<lambda>(name, values). map (Pair name) values) df))"

definition melt :: "wide \<Rightarrow> error + (nat \<times> string \<times> sample) list" where
  "melt df = (if ''Time'' \<in> set (map fst df) then Inl ValueError else Inr (unpivot df))"

definition set_branch :: "string \<Rightarrow> (nat \<times> string \<times> sample) list \<Rightarrow> frame" where
  "set_branch label df = map (\<lambda>(i, t, v). (i, \<lparr>Test = t, Time = v, branch = label\<rparr>)) df"

definition concat_ignore_index :: "frame \<Rightarrow> frame \<Rightarrow> frame" where
  \<comment> \<open>\<^verbatim>\<open>pandas.concat([a, b], ignore_index=True)\<close>\<close>
  "concat_ignore_index a b = enumerate 0 (map snd a @ map snd b)"

section \<open>Reshaping one category (lines 26 to 34)\<close>

definition long_form :: "string \<Rightarrow> tests \<Rightarrow> error + frame" where
  "long_form label data =
     (case DataFrame data of
        Inl e \<Rightarrow> Inl e
      | Inr df \<Rightarrow>
     (case melt df of
        Inl e \<Rightarrow> Inl e
      | Inr long \<Rightarrow> Inr (set_branch label long)))"

definition concated_of :: "dataset \<Rightarrow> dataset \<Rightarrow> string \<Rightarrow> error + frame" where
  "concated_of data_master data_current pallet =
     (case getitem data_master pallet of
        Inl e \<Rightarrow> Inl e
      | Inr tests_master \<Rightarrow>
     (case long_form ''master'' tests_master of
        Inl e \<Rightarrow> Inl e
      | Inr dataframe_master \<Rightarrow>
     (case getitem data_current pallet of
        Inl e \<Rightarrow> Inl e
      | Inr tests_current \<Rightarrow>
     (case long_form ''current'' tests_current of
        Inl e \<Rightarrow> Inl e
      | Inr dataframe_current \<Rightarrow>
          Inr (concat_ignore_index dataframe_master dataframe_current)))))"

definition tabular :: "tests \<Rightarrow> bool" where
  \<comment> \<open>the long table of the tests can be built\<close>
  "tabular data = (same_length data \<and> ''Time'' \<notin> set (keys data))"

definition total_samples :: "tests \<Rightarrow> nat" where
  "total_samples data = sum_list (map (\<lambda>(name, values). length values) data)"

text \<open>
  The reshaping as the specification words it: the shorter sample lists are padded with a
  missing value up to the longest, and unpivoting drops the missing cells.
\<close>

definition spec_pad :: "tests \<Rightarrow> (string \<times> sample option list) list" where
  "spec_pad data =
     (let n = fold max (map (\<lambda>(name, values). length values) data) 0
      in map (\<lambda>(name, values). (name, map Some values @ replicate (n - length values) None)) data)"

definition spec_unpivot :: "(string \<times> sample option list) list \<Rightarrow> (string \<times> sample) list" where
  "spec_unpivot df =
     concat (map (\<lambda>(name, cells). concat (map (\<lambda>c. case c of None \<Rightarrow> [] | Some v \<Rightarrow> [(name, v)]) cells)) df)"

section \<open>The process and its environment\<close>

text \<open>
  A path value is the list of its components from the root; there are no symbolic links.
  A path given as a string (a command-line argument, a file name) is taken from the
  root when it starts with a slash and from the working directory otherwise; empty
  components and \<^verbatim>\<open>.\<close> are skipped and \<^verbatim>\<open>..\<close> steps to the parent. The
  resolution is lexical: it does not ask that the directories passed through exist, so a
  name such as \<^verbatim>\<open>nosuch/../master.json\<close> or \<^verbatim>\<open>master.json/\<close> is found here where the
  operating system refuses it.
\<close>

type_synonym path = "string list"

fun split_on :: "char \<Rightarrow> string \<Rightarrow> string list" where
  "split_on c [] = [[]]"
| "split_on c (x # xs) =
     (if x = c then [] # split_on c xs
      else (case split_on c xs of [] \<Rightarrow> [[x]] | y # ys \<Rightarrow> (x # y) # ys))"

fun walk :: "path \<Rightarrow> string list \<Rightarrow> path" where
  "walk d [] = d"
| "walk d (c # cs) =
     (if c = [] \<or> c = ''.'' then walk d cs
      else if c = ''..'' then walk (butlast d) cs
      else walk (d @ [c]) cs)"

definition resolve :: "path \<Rightarrow> string \<Rightarrow> path" where
  "resolve d s =
     walk (case s of [] \<Rightarrow> d | c # _ \<Rightarrow> if c = CHR ''/'' then [] else d) (split_on CHR ''/'' s)"

text \<open>
  What is drawn on the current matplotlib figure, and its size in inches. A file holds a
  JSON document of the expected shape (categories, tests, lists of numbers), a saved
  figure, or something that is not JSON. A JSON document of another shape is not
  modelled.
\<close>

record figure =
  plots :: "frame list"
  size_inches :: "real \<times> real"

datatype content = Json dataset | Png figure | Other

datatype node = Dir | File content

text \<open>
  The state of a run: the working directory of the process, the file system, the current
  figure, and the log of the paths written by \<^verbatim>\<open>savefig\<close>.
\<close>

record world =
  cwd :: path
  fs :: "path \<rightharpoonup> node"
  fig :: figure
  saved :: "path list"

definition start :: "path \<Rightarrow> (path \<rightharpoonup> node) \<Rightarrow> world" where
  \<comment> \<open>a fresh process: matplotlib's default figure size, nothing drawn, nothing saved\<close>
  "start d f = \<lparr>cwd = d, fs = f, fig = \<lparr>plots = [], size_inches = (6.4, 4.8)\<rparr>, saved = []\<rparr>"

definition os_getcwd :: "world \<Rightarrow> path" where
  "os_getcwd w = cwd w"

definition os_path_join :: "path \<Rightarrow> string \<Rightarrow> path" where
  "os_path_join p name = resolve p name"

definition os_path_exists :: "world \<Rightarrow> path \<Rightarrow> bool" where
  "os_path_exists w p = (fs w p \<noteq> None)"

definition os_mkdir :: "world \<Rightarrow> path \<Rightarrow> error + world" where
  \<comment> \<open>not recursive: the parent must be an existing directory\<close>
  "os_mkdir w p =
     (if fs w p \<noteq> None then Inl FileExistsError
      else (case fs w (butlast p) of
              None \<Rightarrow> Inl FileNotFoundError
            | Some (File c) \<Rightarrow> Inl NotADirectoryError
            | Some Dir \<Rightarrow> Inr (w\<lparr>fs := (fs w)(p \<mapsto> Dir)\<rparr>)))"

definition os_chdir :: "world \<Rightarrow> path \<Rightarrow> error + world" where
  "os_chdir w p =
     (case fs w p of
        None \<Rightarrow> Inl FileNotFoundError
      | Some (File c) \<Rightarrow> Inl NotADirectoryError
      | Some Dir \<Rightarrow> Inr (w\<lparr>cwd := p\<rparr>))"

definition argv_at :: "string list \<Rightarrow> nat \<Rightarrow> error + string" where
  \<comment> \<open>\<^verbatim>\<open>sys.argv[i]\<close>\<close>
  "argv_at argv i = (if i < length argv then Inr (argv ! i) else Inl IndexError)"

definition open_read :: "world \<Rightarrow> string \<Rightarrow> error + content" where
  \<comment> \<open>\<^verbatim>\<open>open(name, "r")\<close> and reading the whole file\<close>
  "open_read w name =
     (if name = [] then Inl FileNotFoundError
      else (case fs w (resolve (cwd w) name) of
              None \<Rightarrow> Inl FileNotFoundError
            | Some Dir \<Rightarrow> Inl IsADirectoryError
            | Some (File c) \<Rightarrow> Inr c))"

definition json_load :: "content \<Rightarrow> error + dataset" where
  \<comment> \<open>an image is not text: reading it fails before it is parsed\<close>
  "json_load c = (case c of Json d \<Rightarrow> Inr d | Png f \<Rightarrow> Inl UnicodeDecodeError | Other \<Rightarrow> Inl JSONDecodeError)"

definition load :: "world \<Rightarrow> string \<Rightarrow> error + dataset" where
  \<comment> \<open>\<^verbatim>\<open>with open(name, "r") as read_file: json.load(read_file)\<close>\<close>
  "load w name = (case open_read w name of Inl e \<Rightarrow> Inl e | Inr c \<Rightarrow> json_load c)"

text \<open>
  The plotting libraries. Whether seaborn accepts a table and whether matplotlib renders
  a figure are not decided by the script; they are parameters of the model. A refusal is
  the error \<open>PlotError\<close>.
\<close>

record plotlib =
  boxplot_ok :: "frame \<Rightarrow> bool"
  savefig_ok :: "figure \<Rightarrow> bool"

definition seaborn_boxplot :: "plotlib \<Rightarrow> world \<Rightarrow> frame \<Rightarrow> error + world" where
  \<comment> \<open>draws on the current figure\<close>
  "seaborn_boxplot lib w data =
     (if boxplot_ok lib data
      then Inr (w\<lparr>fig := (fig w)\<lparr>plots := plots (fig w) @ [data]\<rparr>\<rparr>)
      else Inl PlotError)"

definition set_size_inches :: "world \<Rightarrow> real \<times> real \<Rightarrow> world" where
  "set_size_inches w sz = w\<lparr>fig := (fig w)\<lparr>size_inches := sz\<rparr>\<rparr>"

text \<open>
  \<^verbatim>\<open>figure.savefig(fname, bbox_inches="tight")\<close>. matplotlib takes the format from the
  extension that \<^verbatim>\<open>os.path.splitext\<close> finds in the name; a last component made of
  leading dots and a name without a dot has none, and then the trailing dots are
  stripped and \<^verbatim>\<open>.png\<close> is appended. The names the script passes end in \<^verbatim>\<open>.png\<close>, so the
  extension is \<^verbatim>\<open>.png\<close> or empty. The figure is rendered, then the file is created or
  truncated and the image written. \<^verbatim>\<open>bbox_inches="tight"\<close> crops the image to what is
  drawn; the saved content here is the figure and its size, not the cropped image.
\<close>

definition splitext_ext :: "string \<Rightarrow> string" where
  \<comment> \<open>the second component of \<^verbatim>\<open>os.path.splitext\<close>\<close>
  "splitext_ext p =
     (let b = rev (takeWhile (\<lambda>c. c \<noteq> CHR ''/'') (rev p));
          e = rev (takeWhile (\<lambda>c. c \<noteq> CHR ''.'') (rev b));
          stem = take (length b - Suc (length e)) b
      in if CHR ''.'' \<in> set b \<and> list_ex (\<lambda>c. c \<noteq> CHR ''.'') stem then CHR ''.'' # e else [])"

definition savefig_name :: "string \<Rightarrow> string" where
  \<comment> \<open>the name of the file that is written\<close>
  "savefig_name fname =
     (if drop 1 (splitext_ext fname) = []
      then rev (dropWhile (\<lambda>c. c = CHR ''.'') (rev fname)) @ ''.png''
      else fname)"

definition savefig :: "plotlib \<Rightarrow> world \<Rightarrow> string \<Rightarrow> error + world" where
  "savefig lib w fname =
     (let target = resolve (cwd w) (savefig_name fname) in
      if \<not> savefig_ok lib (fig w) then Inl PlotError
      else (case fs w target of
              Some Dir \<Rightarrow> Inl IsADirectoryError
            | _ \<Rightarrow>
          (case fs w (butlast target) of
              None \<Rightarrow> Inl FileNotFoundError
            | Some (File c) \<Rightarrow> Inl NotADirectoryError
            | Some Dir \<Rightarrow>
                Inr (w\<lparr>fs := (fs w)(target \<mapsto> File (Png (fig w))),
                       saved := saved w @ [target]\<rparr>))))"

definition clf :: "world \<Rightarrow> world" where
  "clf w = w\<lparr>fig := (fig w)\<lparr>plots := []\<rparr>\<rparr>"

section \<open>The script\<close>

text \<open>One turn of the loop over the categories (lines 26 to 44).\<close>

definition body :: "plotlib \<Rightarrow> dataset \<Rightarrow> dataset \<Rightarrow> string \<Rightarrow> world \<Rightarrow> error + world" where
  "body lib data_master data_current pallet w =
     (case concated_of data_master data_current pallet of
        Inl e \<Rightarrow> Inl e
      | Inr concated \<Rightarrow>
     (case seaborn_boxplot lib w concated of
        Inl e \<Rightarrow> Inl e
      | Inr w1 \<Rightarrow>
     (case getitem data_master pallet of
        Inl e \<Rightarrow> Inl e
      | Inr tests_master \<Rightarrow>
     (let height = item_height * real (length tests_master);
          w2 = set_size_inches w1 (figure_width, height)
      in case savefig lib w2 (pallet @ ''.png'') of
           Inl e \<Rightarrow> Inl e
         | Inr w3 \<Rightarrow> Inr (clf w3)))))"

text \<open>
  \<^verbatim>\<open>for pallet in data_master\<close>: an uncaught exception ends the run; what was written
  before stays on disk.
\<close>

fun loop :: "plotlib \<Rightarrow> dataset \<Rightarrow> dataset \<Rightarrow> string list \<Rightarrow> world \<Rightarrow> error option \<times> world" where
  "loop lib data_master data_current [] w = (None, w)"
| "loop lib data_master data_current (pallet # rest) w =
     (case body lib data_master data_current pallet w of
        Inl e \<Rightarrow> (Some e, w)
      | Inr w' \<Rightarrow> loop lib data_master data_current rest w')"

text \<open>
  The whole script (lines 10 to 44). \<^verbatim>\<open>seaborn.set_theme\<close> (line 23) only chooses the
  style of the drawing and has no counterpart here.
\<close>

definition main :: "plotlib \<Rightarrow> string list \<Rightarrow> world \<Rightarrow> error option \<times> world" where
  "main lib argv w =
     (let current_folder = os_getcwd w;
          path = os_path_join current_folder ''results''
      in case (if \<not> os_path_exists w path then os_mkdir w path else Inr w) of
           Inl e \<Rightarrow> (Some e, w)
         | Inr w1 \<Rightarrow>
        (case argv_at argv 1 of
           Inl e \<Rightarrow> (Some e, w1)
         | Inr arg1 \<Rightarrow>
        (case load w1 arg1 of
           Inl e \<Rightarrow> (Some e, w1)
         | Inr data_master \<Rightarrow>
        (case argv_at argv 2 of
           Inl e \<Rightarrow> (Some e, w1)
         | Inr arg2 \<Rightarrow>
        (case load w1 arg2 of
           Inl e \<Rightarrow> (Some e, w1)
         | Inr data_current \<Rightarrow>
        (case os_chdir w1 path of
           Inl e \<Rightarrow> (Some e, w1)
         | Inr w2 \<Rightarrow> loop lib data_master data_current (keys data_master) w2))))))"

definition test_names :: "frame \<Rightarrow> string list" where
  \<comment> \<open>the distinct test names of a long table\<close>
  "test_names t = remdups (map (\<lambda>(i, r). Test r) t)"

section \<open>What a successful run writes\<close>

text \<open>
  The chart of a category: the combined table drawn on an empty figure of the size the
  script sets. A turn of the loop succeeds when the tables can be built, the libraries
  accept them, and the target is not a directory and lies in an existing directory; it
  then saves the chart and clears the figure.
\<close>

definition chart :: "dataset \<Rightarrow> dataset \<Rightarrow> string \<Rightarrow> figure" where
  "chart data_master data_current pallet =
     \<lparr>plots = (case concated_of data_master data_current pallet of Inl e \<Rightarrow> [] | Inr t \<Rightarrow> [t]),
      size_inches = (figure_width,
         item_height * real (case getitem data_master pallet of Inl e \<Rightarrow> 0 | Inr tm \<Rightarrow> length tm))\<rparr>"

definition step_ok :: "plotlib \<Rightarrow> dataset \<Rightarrow> dataset \<Rightarrow> path \<Rightarrow> (path \<rightharpoonup> node) \<Rightarrow> string \<Rightarrow> bool" where
  "step_ok lib data_master data_current d m pallet =
     (case concated_of data_master data_current pallet of
        Inl e \<Rightarrow> False
      | Inr t \<Rightarrow>
          boxplot_ok lib t \<and> savefig_ok lib (chart data_master data_current pallet) \<and>
          m (resolve d (savefig_name (pallet @ ''.png''))) \<noteq> Some Dir \<and>
          m (butlast (resolve d (savefig_name (pallet @ ''.png'')))) = Some Dir)"

definition save_chart :: "dataset \<Rightarrow> dataset \<Rightarrow> string \<Rightarrow> world \<Rightarrow> world" where
  "save_chart data_master data_current pallet w =
     w\<lparr>fs := (fs w)(resolve (cwd w) (savefig_name (pallet @ ''.png'')) \<mapsto> File (Png (chart data_master data_current pallet))),
       saved := saved w @ [resolve (cwd w) (savefig_name (pallet @ ''.png''))],
       fig := \<lparr>plots = [], size_inches = size_inches (chart data_master data_current pallet)\<rparr>\<rparr>"

definition save_charts :: "dataset \<Rightarrow> dataset \<Rightarrow> string list \<Rightarrow> world \<Rightarrow> world" where
  "save_charts data_master data_current ps w = fold (save_chart data_master data_current) ps w"

definition prepared :: "world \<Rightarrow> world" where
  \<comment> \<open>the state after lines 10 to 13, when they succeed\<close>
  "prepared w =
     (if fs w (cwd w @ [''results'']) = None
      then w\<lparr>fs := (fs w)(cwd w @ [''results''] \<mapsto> Dir)\<rparr> else w)"

text \<open>A library that accepts everything, and a small file system, for concrete runs.\<close>

definition accepting :: plotlib where
  "accepting = \<lparr>boxplot_ok = (\<lambda>t. True), savefig_ok = (\<lambda>f. True)\<rparr>"

definition demo_fs :: "dataset \<Rightarrow> dataset \<Rightarrow> (path \<rightharpoonup> node)" where
  "demo_fs m c =
     [[] \<mapsto> Dir, [''work''] \<mapsto> Dir,
      [''work'', ''master.json''] \<mapsto> File (Json m),
      [''work'', ''current.json''] \<mapsto> File (Json c)]"

definition demo_argv :: "string list" where
  "demo_argv = [''performance-boxplot.py'', ''master.json'', ''current.json'']"

text \<open>The data of the specification's scenario.\<close>

definition scenario_master :: dataset where
  "scenario_master = [(''cat1'', [(''testA'', [1, 2, 3]), (''testB'', [4, 5, 6])])]"

definition scenario_current :: dataset where
  "scenario_current = [(''cat1'', [(''testA'', [2, 3, 4]), (''testB'', [3, 4, 5])])]"

definition decoy_fs :: "path \<rightharpoonup> node" where
  \<comment> \<open>the inputs in the working directory, another document of the same name in results\<close>
  "decoy_fs = (demo_fs scenario_master scenario_current)
     ([''work'', ''results''] \<mapsto> Dir, [''work'', ''results'', ''master.json''] \<mapsto> File (Json []))"

definition partial_current :: dataset where
  \<comment> \<open>the scenario's current data without testB\<close>
  "partial_current = [(''cat1'', [(''testA'', [2, 3, 4])])]"

definition extended_current :: dataset where
  \<comment> \<open>the scenario's current data with a test the master does not have\<close>
  "extended_current =
     [(''cat1'', [(''testA'', [2, 3, 4]), (''testB'', [3, 4, 5]), (''testC'', [7, 8, 9])])]"

definition misplaced_fs :: "path \<rightharpoonup> node" where
  \<comment> \<open>the inputs in results only\<close>
  "misplaced_fs =
     [[] \<mapsto> Dir, [''work''] \<mapsto> Dir, [''work'', ''results''] \<mapsto> Dir,
      [''work'', ''results'', ''master.json''] \<mapsto> File (Json scenario_master),
      [''work'', ''results'', ''current.json''] \<mapsto> File (Json scenario_current)]"



definition ragged_data :: dataset where
  \<comment> \<open>a category whose tests have different sample counts\<close>
  "ragged_data = [(''cat1'', [(''testA'', [1, 2, 3]), (''testB'', [4, 5])])]"

definition scenario_table :: frame where
  "scenario_table =
     [(0, \<lparr>Test = ''testA'', Time = 1, branch = ''master''\<rparr>),
      (1, \<lparr>Test = ''testA'', Time = 2, branch = ''master''\<rparr>),
      (2, \<lparr>Test = ''testA'', Time = 3, branch = ''master''\<rparr>),
      (3, \<lparr>Test = ''testB'', Time = 4, branch = ''master''\<rparr>),
      (4, \<lparr>Test = ''testB'', Time = 5, branch = ''master''\<rparr>),
      (5, \<lparr>Test = ''testB'', Time = 6, branch = ''master''\<rparr>),
      (6, \<lparr>Test = ''testA'', Time = 2, branch = ''current''\<rparr>),
      (7, \<lparr>Test = ''testA'', Time = 3, branch = ''current''\<rparr>),
      (8, \<lparr>Test = ''testA'', Time = 4, branch = ''current''\<rparr>),
      (9, \<lparr>Test = ''testB'', Time = 3, branch = ''current''\<rparr>),
      (10, \<lparr>Test = ''testB'', Time = 4, branch = ''current''\<rparr>),
      (11, \<lparr>Test = ''testB'', Time = 5, branch = ''current''\<rparr>)]"

definition stale_fs :: "path \<rightharpoonup> node" where
  \<comment> \<open>what the scenario's run leaves, with something else in the place of the chart\<close>
  "stale_fs =
     (fs (snd (main accepting demo_argv (start [''work''] (demo_fs scenario_master scenario_current)))))
       ([''work'', ''results'', ''cat1.png''] \<mapsto> File Other)"

section \<open>Reshaping: row counts, order and index\<close>

lemmas run_defs = main_def os_getcwd_def os_path_join_def resolve_def os_path_exists_def os_mkdir_def
  os_chdir_def argv_at_def load_def open_read_def json_load_def body_def concated_of_def getitem_def
  long_form_def DataFrame_def same_length_def melt_def unpivot_def set_branch_def concat_ignore_index_def
  seaborn_boxplot_def set_size_inches_def savefig_def savefig_name_def splitext_ext_def
  clf_def keys_def start_def demo_fs_def
  demo_argv_def accepting_def figure_width_def item_height_def Let_def enumerate_eq_zip
  scenario_master_def scenario_current_def

lemma length_unpivot: "length (unpivot df) = total_samples df"
  by (induction df) (auto simp: melt_def unpivot_def total_samples_def)

lemma length_set_branch: "length (set_branch label df) = length df"
  by (simp add: set_branch_def)

lemma index_enumerate: "map fst (enumerate 0 xs) = [0..<length xs]"
  by (simp add: enumerate_eq_zip)

lemma branch_set_branch: "r \<in> set (map snd (set_branch label df)) \<Longrightarrow> branch r = label"
  by (auto simp: set_branch_def)

lemma long_form_eq:
  "long_form label data =
     (if tabular data then Inr (set_branch label (unpivot data)) else Inl ValueError)"
  by (auto simp: long_form_def DataFrame_def melt_def tabular_def keys_def)

lemma cells_of_set_branch:
  "map (\<lambda>(i, r). (Test r, Time r, branch r)) (set_branch label (unpivot df)) =
   map (\<lambda>(name, v). (name, v, label)) (concat (map (\<lambda>(name, values). map (Pair name) values) df))"
proof -
  have "map (\<lambda>(i, r). (Test r, Time r, branch r)) (set_branch label (unpivot df)) =
        map ((\<lambda>(name, v). (name, v, label)) \<circ> snd) (unpivot df)"
    by (simp add: set_branch_def split_def comp_def)
  also have "\<dots> = map (\<lambda>(name, v). (name, v, label)) (map snd (unpivot df))"
    by simp
  finally show ?thesis
    by (simp add: unpivot_def)
qed

text \<open>
  C1 (as the code has it). A category whose tests have different sample counts is not
  padded: building the wide table raises ValueError and there is no long table. The same
  error comes from \<^verbatim>\<open>pandas.melt\<close> when a test is named \<^verbatim>\<open>Time\<close>. Otherwise, with the same
  number of samples for all tests of the category, the long table of one branch has
  exactly one row per sample: the test name, the sample and the branch label, test after
  test, the samples of a test in their order.
\<close>

theorem long_form_row_count:
  "(tabular data \<longrightarrow>
      (\<exists>t. long_form label data = Inr t \<and> length t = total_samples data \<and>
           map (\<lambda>(i, r). (Test r, Time r, branch r)) t =
           map (\<lambda>(name, v). (name, v, label))
             (concat (map (\<lambda>(name, values). map (Pair name) values) data)))) \<and>
   (\<not> same_length data \<or> ''Time'' \<in> set (keys data) \<longrightarrow> long_form label data = Inl ValueError)"
  by (auto simp: long_form_eq length_set_branch length_unpivot cells_of_set_branch tabular_def)

theorem long_form_row_count_witness:
  "tabular [(''testA'', [1, 2, 3]), (''testB'', [4, 5, 6])] \<and>
   (\<exists>t. long_form ''master'' [(''testA'', [1, 2, 3]), (''testB'', [4, 5, 6])] = Inr t \<and> length t = 6 \<and>
        map (\<lambda>(i, r). (Test r, Time r, branch r)) t =
          [(''testA'', 1, ''master''), (''testA'', 2, ''master''), (''testA'', 3, ''master''),
           (''testB'', 4, ''master''), (''testB'', 5, ''master''), (''testB'', 6, ''master'')]) \<and>
   \<not> same_length [(''testA'', [1, 2, 3]), (''testB'', [4, 5])] \<and>
   long_form ''master'' [(''testA'', [1, 2, 3]), (''testB'', [4, 5])] = Inl ValueError \<and>
   ''Time'' \<in> set (keys [(''Time'', [1, 2, 3 :: real])]) \<and>
   long_form ''master'' [(''Time'', [1, 2, 3])] = Inl ValueError"
proof -
  have a: "tabular [(''testA'', [1, 2, 3]), (''testB'', [4, 5, 6])]"
    by (simp add: tabular_def same_length_def keys_def)
  have b: "\<not> same_length [(''testA'', [1, 2, 3]), (''testB'', [4, 5])]"
    by (simp add: same_length_def)
  have c: "total_samples [(''testA'', [1, 2, 3]), (''testB'', [4, 5, 6])] = 6"
    by (simp add: total_samples_def)
  have d: "''Time'' \<in> set (keys [(''Time'', [1, 2, 3 :: real])])"
    by (simp add: keys_def)
  show ?thesis
    using a b c d
      long_form_row_count [of "[(''testA'', [1, 2, 3]), (''testB'', [4, 5, 6])]" "''master''"]
      long_form_row_count [of "[(''testA'', [1, 2, 3]), (''testB'', [4, 5])]" "''master''"]
      long_form_row_count [of "[(''Time'', [1, 2, 3])]" "''master''"]
    by simp
qed

text \<open>
  C1 (as stated) fails: for the ragged category \<open>testA: [1, 2, 3]\<close>, \<open>testB: [4, 5]\<close> the
  specification's pad-and-drop reshaping gives five rows, the code raises ValueError.
\<close>

theorem ragged_category_counterexample:
  "long_form ''master'' [(''testA'', [1, 2, 3]), (''testB'', [4, 5])] = Inl ValueError \<and>
   length (spec_unpivot (spec_pad [(''testA'', [1, 2, 3]), (''testB'', [4, 5])])) = 5"
  by (simp add: long_form_def DataFrame_def same_length_def spec_unpivot_def spec_pad_def)

section \<open>Paths\<close>

lemma split_on_plain: "c \<notin> set s \<Longrightarrow> split_on c s = [s]"
  by (induction s) auto

lemma resolve_plain:
  "CHR ''/'' \<notin> set s \<Longrightarrow> s \<noteq> [] \<Longrightarrow> s \<noteq> ''.'' \<Longrightarrow> s \<noteq> ''..'' \<Longrightarrow> resolve d s = d @ [s]"
  by (cases s) (auto simp: resolve_def split_on_plain)

lemma takeWhile_all: "\<forall>x \<in> set xs. P x \<Longrightarrow> takeWhile P xs = xs"
  by (induction xs) auto

lemma splitext_png:
  assumes "CHR ''/'' \<notin> set c" "\<exists>x \<in> set c. x \<noteq> CHR ''.''"
  shows "splitext_ext (c @ ''.png'') = ''.png''"
proof -
  have b: "rev (takeWhile (\<lambda>x. x \<noteq> CHR ''/'') (rev (c @ ''.png''))) = c @ ''.png''"
    using assms(1) by (subst takeWhile_all) auto
  have e: "rev (takeWhile (\<lambda>x. x \<noteq> CHR ''.'') (rev (c @ ''.png''))) = ''png''"
    by simp
  show ?thesis
    unfolding splitext_ext_def b e Let_def using assms(2) by (simp add: list_ex_iff)
qed

lemma savefig_name_png:
  "CHR ''/'' \<notin> set c \<Longrightarrow> \<exists>x \<in> set c. x \<noteq> CHR ''.'' \<Longrightarrow> savefig_name (c @ ''.png'') = c @ ''.png''"
  by (simp add: savefig_name_def splitext_png)

lemma resolve_png:
  "CHR ''/'' \<notin> set c \<Longrightarrow> \<exists>x \<in> set c. x \<noteq> CHR ''.'' \<Longrightarrow>
   resolve d (savefig_name (c @ ''.png'')) = d @ [c @ ''.png'']"
  unfolding savefig_name_png by (rule resolve_plain) (auto simp: append_eq_Cons_conv)

lemma join_results: "os_path_join d ''results'' = d @ [''results'']"
  by (simp add: os_path_join_def resolve_plain)

section \<open>The loop\<close>

lemma figure_update:
  "(f::figure)\<lparr>plots := a, size_inches := b\<rparr> = \<lparr>plots = a, size_inches = b\<rparr>"
  "(f::figure)\<lparr>size_inches := b, plots := a\<rparr> = \<lparr>plots = a, size_inches = b\<rparr>"
  by (cases f, simp)+

lemma concated_getitem: "concated_of dm dc p = Inr t \<Longrightarrow> \<exists>tm. getitem dm p = Inr tm"
  by (auto simp: concated_of_def split: sum.splits)

lemma body_ok:
  assumes "plots (fig w) = []" "step_ok lib dm dc (cwd w) (fs w) p"
  shows "body lib dm dc p w = Inr (save_chart dm dc p w)"
proof -
  from assms(2) obtain t where t: "concated_of dm dc p = Inr t"
    by (auto simp: step_ok_def split: sum.splits)
  then obtain tm where tm: "getitem dm p = Inr tm" using concated_getitem by blast
  have c: "chart dm dc p = \<lparr>plots = [t], size_inches = (figure_width, item_height * real (length tm))\<rparr>"
    by (simp add: chart_def t tm)
  from assms(2) t have ok: "boxplot_ok lib t" "savefig_ok lib (chart dm dc p)"
     "fs w (resolve (cwd w) (savefig_name (p @ ''.png''))) \<noteq> Some Dir"
     "fs w (butlast (resolve (cwd w) (savefig_name (p @ ''.png'')))) = Some Dir"
    by (auto simp: step_ok_def)
  show ?thesis
    using ok assms(1) unfolding c
    by (auto simp: body_def t tm seaborn_boxplot_def set_size_inches_def savefig_def clf_def
        save_chart_def c Let_def figure_update split: option.splits node.splits)
qed

lemma body_Inr:
  assumes "plots (fig w) = []" "body lib dm dc p w = Inr w'"
  shows "step_ok lib dm dc (cwd w) (fs w) p"
proof -
  from assms(2) obtain t where t: "concated_of dm dc p = Inr t"
    by (auto simp: body_def split: sum.splits)
  then obtain tm where tm: "getitem dm p = Inr tm" using concated_getitem by blast
  have c: "chart dm dc p = \<lparr>plots = [t], size_inches = (figure_width, item_height * real (length tm))\<rparr>"
    by (simp add: chart_def t tm)
  show ?thesis
    using assms unfolding step_ok_def t c
    by (auto simp: body_def t tm seaborn_boxplot_def set_size_inches_def savefig_def clf_def
        Let_def figure_update split: option.splits node.splits if_splits sum.splits)
qed

lemma save_chart_simps [simp]:
  "cwd (save_chart dm dc p w) = cwd w"
  "plots (fig (save_chart dm dc p w)) = []"
  "saved (save_chart dm dc p w) = saved w @ [resolve (cwd w) (savefig_name (p @ ''.png''))]"
  "fs (save_chart dm dc p w) = (fs w)(resolve (cwd w) (savefig_name (p @ ''.png'')) \<mapsto> File (Png (chart dm dc p)))"
  by (simp_all add: save_chart_def)

lemma step_ok_update:
  "m t \<noteq> Some Dir \<Longrightarrow> step_ok lib dm dc d (m(t \<mapsto> File c)) p = step_ok lib dm dc d m p"
  by (auto simp: step_ok_def split: sum.splits)

lemma step_ok_target: "step_ok lib dm dc d m p \<Longrightarrow> m (resolve d (savefig_name (p @ ''.png''))) \<noteq> Some Dir"
  by (auto simp: step_ok_def split: sum.splits)

lemma save_charts_Nil [simp]: "save_charts dm dc [] w = w"
  by (simp add: save_charts_def)

lemma save_charts_Cons [simp]: "save_charts dm dc (p # ps) w = save_charts dm dc ps (save_chart dm dc p w)"
  by (simp add: save_charts_def)

lemma loop_ok:
  "plots (fig w) = [] \<Longrightarrow> \<forall>p \<in> set ps. step_ok lib dm dc (cwd w) (fs w) p \<Longrightarrow>
   loop lib dm dc ps w = (None, save_charts dm dc ps w)"
proof (induction ps arbitrary: w)
  case Nil
  then show ?case by simp
next
  case (Cons p ps)
  have b: "body lib dm dc p w = Inr (save_chart dm dc p w)"
    using Cons.prems by (simp add: body_ok)
  have t: "fs w (resolve (cwd w) (savefig_name (p @ ''.png''))) \<noteq> Some Dir"
    using Cons.prems step_ok_target by auto
  have pl: "plots (fig (save_chart dm dc p w)) = []"
    by simp
  have st: "\<forall>q \<in> set ps. step_ok lib dm dc (cwd (save_chart dm dc p w)) (fs (save_chart dm dc p w)) q"
    using Cons.prems(2) t by (simp add: step_ok_update)
  have "loop lib dm dc ps (save_chart dm dc p w) = (None, save_charts dm dc ps (save_chart dm dc p w))"
    using pl st by (rule Cons.IH)
  then show ?case by (simp add: b)
qed

lemma loop_None:
  "plots (fig w) = [] \<Longrightarrow> fst (loop lib dm dc ps w) = None \<Longrightarrow>
   \<forall>p \<in> set ps. step_ok lib dm dc (cwd w) (fs w) p"
proof (induction ps arbitrary: w)
  case Nil
  then show ?case by simp
next
  case (Cons p ps)
  from Cons.prems(2) obtain w' where b: "body lib dm dc p w = Inr w'"
    by (auto split: sum.splits)
  have s: "step_ok lib dm dc (cwd w) (fs w) p"
    using Cons.prems(1) b by (rule body_Inr)
  then have w': "w' = save_chart dm dc p w"
    using body_ok [OF Cons.prems(1) s] b by simp
  have t: "fs w (resolve (cwd w) (savefig_name (p @ ''.png''))) \<noteq> Some Dir"
    using s by (rule step_ok_target)
  have "fst (loop lib dm dc ps w') = None"
    using Cons.prems(2) b by simp
  have pl: "plots (fig w') = []"
    by (simp add: w')
  have "\<forall>q \<in> set ps. step_ok lib dm dc (cwd w') (fs w') q"
    using pl \<open>fst (loop lib dm dc ps w') = None\<close> by (rule Cons.IH)
  then have "\<forall>q \<in> set ps. step_ok lib dm dc (cwd w) (fs w) q"
    using t by (simp add: w' step_ok_update)
  with s show ?case by simp
qed

lemma cwd_save_charts [simp]: "cwd (save_charts dm dc ps w) = cwd w"
  by (induction ps arbitrary: w) simp_all

lemma plots_save_charts [simp]: "plots (fig w) = [] \<Longrightarrow> plots (fig (save_charts dm dc ps w)) = []"
  by (induction ps arbitrary: w) simp_all

lemma saved_save_charts:
  "saved (save_charts dm dc ps w) = saved w @ map (\<lambda>p. resolve (cwd w) (savefig_name (p @ ''.png''))) ps"
  by (induction ps arbitrary: w) simp_all

lemma fs_save_charts:
  "fs (save_charts dm dc ps w) =
     fs w ++ map_of (rev (map (\<lambda>p. (resolve (cwd w) (savefig_name (p @ ''.png'')), File (Png (chart dm dc p)))) ps))"
  by (induction ps arbitrary: w) simp_all

section \<open>The whole run\<close>

lemma load_prepared: "load (prepared w) a = Inr d \<longleftrightarrow> load w a = Inr d"
  by (auto simp: load_def open_read_def prepared_def json_load_def
      split: option.splits node.splits content.splits if_splits sum.splits)

lemma load_Inr: "load w a = Inr d \<longleftrightarrow> a \<noteq> [] \<and> fs w (resolve (cwd w) a) = Some (File (Json d))"
  by (auto simp: load_def open_read_def json_load_def
      split: option.splits node.splits content.splits if_splits sum.splits)

lemma cwd_prepared [simp]: "cwd (prepared w) = cwd w"
  by (simp add: prepared_def)

lemma main_prepare_fails:
  "fs w (cwd w @ [''results'']) = None \<Longrightarrow> fs w (cwd w) \<noteq> Some Dir \<Longrightarrow> fst (main lib argv w) \<noteq> None"
  by (auto simp: main_def os_getcwd_def join_results os_path_exists_def os_mkdir_def Let_def
      split: option.splits node.splits)

lemma main_prepared:
  assumes "fs w (cwd w @ [''results'']) \<noteq> None \<or> fs w (cwd w) = Some Dir"
  shows "main lib argv w =
     (case argv_at argv 1 of
        Inl e \<Rightarrow> (Some e, prepared w)
      | Inr arg1 \<Rightarrow>
     (case load (prepared w) arg1 of
        Inl e \<Rightarrow> (Some e, prepared w)
      | Inr data_master \<Rightarrow>
     (case argv_at argv 2 of
        Inl e \<Rightarrow> (Some e, prepared w)
      | Inr arg2 \<Rightarrow>
     (case load (prepared w) arg2 of
        Inl e \<Rightarrow> (Some e, prepared w)
      | Inr data_current \<Rightarrow>
     (case os_chdir (prepared w) (cwd w @ [''results'']) of
        Inl e \<Rightarrow> (Some e, prepared w)
      | Inr w2 \<Rightarrow> loop lib data_master data_current (keys data_master) w2)))))"
proof (cases "fs w (cwd w @ [''results'']) = None")
  case True
  then have d: "fs w (cwd w) = Some Dir"
    using assms by simp
  have pw: "prepared w = w\<lparr>fs := (fs w)(cwd w @ [''results''] \<mapsto> Dir)\<rparr>"
    using True by (simp add: prepared_def)
  show ?thesis
    unfolding pw using True d
    by (simp add: main_def os_getcwd_def join_results os_path_exists_def os_mkdir_def Let_def)
next
  case False
  then have pw: "prepared w = w"
    by (auto simp: prepared_def)
  show ?thesis
    unfolding pw using False
    by (auto simp: main_def os_getcwd_def join_results os_path_exists_def Let_def)
qed

lemma chdir_prepared:
  "os_chdir (prepared w) (cwd w @ [''results'']) =
     (case fs w (cwd w @ [''results'']) of
        Some (File c) \<Rightarrow> Inl NotADirectoryError
      | _ \<Rightarrow> Inr ((prepared w)\<lparr>cwd := cwd w @ [''results'']\<rparr>))"
  by (auto simp: os_chdir_def prepared_def split: option.splits node.splits)

lemma main_ok:
  assumes "fs w (cwd w @ [''results'']) = Some Dir \<or>
           fs w (cwd w @ [''results'']) = None \<and> fs w (cwd w) = Some Dir"
    and "argv_at argv 1 = Inr a1" "argv_at argv 2 = Inr a2"
    and "load w a1 = Inr dm" "load w a2 = Inr dc"
  shows "main lib argv w = loop lib dm dc (keys dm) ((prepared w)\<lparr>cwd := cwd w @ [''results'']\<rparr>)"
proof -
  have p: "fs w (cwd w @ [''results'']) \<noteq> None \<or> fs w (cwd w) = Some Dir"
    using assms(1) by auto
  have l: "load (prepared w) a1 = Inr dm" "load (prepared w) a2 = Inr dc"
    using assms(4,5) by (simp_all add: load_prepared)
  show ?thesis
    using assms(1,2,3) l by (auto simp: main_prepared [OF p] chdir_prepared)
qed

lemma main_None:
  assumes "fst (main lib argv w) = None"
  shows "\<exists>a1 a2 dm dc.
     (fs w (cwd w @ [''results'']) = Some Dir \<or>
        fs w (cwd w @ [''results'']) = None \<and> fs w (cwd w) = Some Dir) \<and>
     argv_at argv 1 = Inr a1 \<and> argv_at argv 2 = Inr a2 \<and>
     load w a1 = Inr dm \<and> load w a2 = Inr dc"
proof -
  have p: "fs w (cwd w @ [''results'']) \<noteq> None \<or> fs w (cwd w) = Some Dir"
    using assms main_prepare_fails by blast
  show ?thesis
    using assms p unfolding main_prepared [OF p] chdir_prepared
    by (auto simp: load_prepared split: sum.splits option.splits node.splits)
qed

lemma body_keeps_dirs: "body lib dm dc p w = Inr w' \<Longrightarrow> fs w q = Some Dir \<Longrightarrow> fs w' q = Some Dir"
  by (auto simp: body_def seaborn_boxplot_def set_size_inches_def savefig_def clf_def Let_def
      split: sum.splits if_splits option.splits node.splits)

lemma loop_keeps_dirs: "fs w q = Some Dir \<Longrightarrow> fs (snd (loop lib dm dc ps w)) q = Some Dir"
proof (induction ps arbitrary: w)
  case Nil
  then show ?case by simp
next
  case (Cons p ps)
  then show ?case
    by (cases "body lib dm dc p w") (auto dest: body_keeps_dirs)
qed

section \<open>The claims about the run\<close>

text \<open>
  C10. In the combined table of a category all rows of the master data set come before all
  rows of the current data set, and the index is \<open>0, 1, ...\<close> over the concatenated rows.
\<close>

theorem concated_order_and_index:
  "concated_of data_master data_current pallet = Inr t \<Longrightarrow>
   map fst t = [0..<length t] \<and>
   (\<exists>tm tc m c. getitem data_master pallet = Inr tm \<and> getitem data_current pallet = Inr tc \<and>
      long_form ''master'' tm = Inr m \<and> long_form ''current'' tc = Inr c \<and>
      map snd t = map snd m @ map snd c \<and>
      (\<forall>r \<in> set (map snd m). branch r = ''master'') \<and>
      (\<forall>r \<in> set (map snd c). branch r = ''current''))"
  apply (simp add: concated_of_def split: sum.splits)
  apply (auto simp: concat_ignore_index_def enumerate_eq_zip long_form_def set_branch_def split: sum.splits)
  done

theorem concated_order_and_index_witness:
  "concated_of [(''cat1'', [(''testA'', [1, 2])])] [(''cat1'', [(''testA'', [3])])] ''cat1'' =
     Inr [(0, \<lparr>Test = ''testA'', Time = 1, branch = ''master''\<rparr>),
          (1, \<lparr>Test = ''testA'', Time = 2, branch = ''master''\<rparr>),
          (2, \<lparr>Test = ''testA'', Time = 3, branch = ''current''\<rparr>)] \<and>
   map fst [(0::nat, \<lparr>Test = ''testA'', Time = 1, branch = ''master''\<rparr>),
          (1, \<lparr>Test = ''testA'', Time = 2, branch = ''master''\<rparr>),
          (2, \<lparr>Test = ''testA'', Time = 3, branch = ''current''\<rparr>)] =
     [0..<length [(0::nat, \<lparr>Test = ''testA'', Time = 1, branch = ''master''\<rparr>),
          (1, \<lparr>Test = ''testA'', Time = 2, branch = ''master''\<rparr>),
          (2, \<lparr>Test = ''testA'', Time = 3, branch = ''current''\<rparr>)]]"
proof -
  have h: "concated_of [(''cat1'', [(''testA'', [1, 2])])] [(''cat1'', [(''testA'', [3])])] ''cat1'' =
     Inr [(0, \<lparr>Test = ''testA'', Time = 1, branch = ''master''\<rparr>),
          (1, \<lparr>Test = ''testA'', Time = 2, branch = ''master''\<rparr>),
          (2, \<lparr>Test = ''testA'', Time = 3, branch = ''current''\<rparr>)]"
    by (simp add: run_defs)
  show ?thesis
    using h concated_order_and_index [OF h] by blast
qed

text \<open>
  C9. The directory \<^verbatim>\<open>results\<close> is created before the input files are opened. When
  the working directory exists and has no entry \<^verbatim>\<open>results\<close>, every run leaves
  \<^verbatim>\<open>results\<close> behind as a directory; a run whose first or second input cannot be loaded
  ends with that error and with a file system that differs from the initial one by the new
  directory.
\<close>

theorem results_created_before_loading:
  assumes "fs w (cwd w) = Some Dir" and "fs w (cwd w @ [''results'']) = None"
  shows "fs (snd (main lib argv w)) (cwd w @ [''results'']) = Some Dir \<and>
     (argv_at argv 1 = Inr a1 \<and> argv_at argv 2 = Inr a2 \<and>
      (load (w\<lparr>fs := (fs w)(cwd w @ [''results''] \<mapsto> Dir)\<rparr>) a1 = Inl e \<or>
       load (w\<lparr>fs := (fs w)(cwd w @ [''results''] \<mapsto> Dir)\<rparr>) a1 = Inr dm \<and>
       load (w\<lparr>fs := (fs w)(cwd w @ [''results''] \<mapsto> Dir)\<rparr>) a2 = Inl e) \<longrightarrow>
      main lib argv w = (Some e, w\<lparr>fs := (fs w)(cwd w @ [''results''] \<mapsto> Dir)\<rparr>))"
proof -
  have p: "fs w (cwd w @ [''results'']) \<noteq> None \<or> fs w (cwd w) = Some Dir"
    using assms by simp
  have pw: "prepared w = w\<lparr>fs := (fs w)(cwd w @ [''results''] \<mapsto> Dir)\<rparr>"
    using assms by (simp add: prepared_def)
  have d: "fs (prepared w) (cwd w @ [''results'']) = Some Dir"
    by (simp add: pw)
  have 1: "fs (snd (main lib argv w)) (cwd w @ [''results'']) = Some Dir"
    using d unfolding main_prepared [OF p] chdir_prepared
    by (auto simp: assms loop_keeps_dirs split: sum.splits)
  have 2: "argv_at argv 1 = Inr a1 \<and> argv_at argv 2 = Inr a2 \<and>
      (load (prepared w) a1 = Inl e \<or> load (prepared w) a1 = Inr dm \<and> load (prepared w) a2 = Inl e) \<longrightarrow>
      main lib argv w = (Some e, prepared w)"
    unfolding main_prepared [OF p] by auto
  show ?thesis
    using 1 2 unfolding pw by blast
qed

theorem results_created_before_loading_witness:
  "fs (start [''work''] [[] \<mapsto> Dir, [''work''] \<mapsto> Dir]) (cwd (start [''work''] [[] \<mapsto> Dir, [''work''] \<mapsto> Dir])) = Some Dir \<and>
   fs (start [''work''] [[] \<mapsto> Dir, [''work''] \<mapsto> Dir]) [''work'', ''results''] = None \<and>
   argv_at demo_argv 1 = Inr ''master.json'' \<and> argv_at demo_argv 2 = Inr ''current.json'' \<and>
   load ((start [''work''] [[] \<mapsto> Dir, [''work''] \<mapsto> Dir])\<lparr>fs := [[] \<mapsto> Dir, [''work''] \<mapsto> Dir, [''work'', ''results''] \<mapsto> Dir]\<rparr>) ''master.json''
     = Inl FileNotFoundError \<and>
   main accepting demo_argv (start [''work''] [[] \<mapsto> Dir, [''work''] \<mapsto> Dir]) =
     (Some FileNotFoundError,
      (start [''work''] [[] \<mapsto> Dir, [''work''] \<mapsto> Dir])\<lparr>fs := [[] \<mapsto> Dir, [''work''] \<mapsto> Dir, [''work'', ''results''] \<mapsto> Dir]\<rparr>) \<and>
   fs (snd (main accepting demo_argv (start [''work''] [[] \<mapsto> Dir, [''work''] \<mapsto> Dir]))) [''work'', ''results''] = Some Dir"
  using results_created_before_loading [of "start [''work''] [[] \<mapsto> Dir, [''work''] \<mapsto> Dir]"
      accepting demo_argv "''master.json''" "''current.json''" FileNotFoundError "[]"]
  by (simp add: start_def argv_at_def demo_argv_def load_def open_read_def resolve_def)

text \<open>
  C6 (as the code has it). With fewer than two positional arguments the run ends with an
  error. When \<^verbatim>\<open>results\<close> exists or can be created, that error is IndexError, raised
  where the missing entry of \<^verbatim>\<open>sys.argv\<close> is read, after \<^verbatim>\<open>results\<close> has been prepared:
  at \<^verbatim>\<open>sys.argv[1]\<close> without positional arguments; with one, at \<^verbatim>\<open>sys.argv[2]\<close> after
  the first document has been loaded, unless loading it fails, and then that error ends
  the run. Positional arguments after the second are never read: the run is the same as
  with the first two alone.
\<close>

theorem argument_count:
  "(length argv < 3 \<longrightarrow> fst (main lib argv w) \<noteq> None) \<and>
   ((fs w (cwd w @ [''results'']) \<noteq> None \<or> fs w (cwd w) = Some Dir) \<and> length argv < 2 \<longrightarrow>
      main lib argv w = (Some IndexError, prepared w)) \<and>
   ((fs w (cwd w @ [''results'']) \<noteq> None \<or> fs w (cwd w) = Some Dir) \<and> length argv = 2 \<and>
    load (prepared w) (argv ! 1) = Inr dm \<longrightarrow>
      main lib argv w = (Some IndexError, prepared w)) \<and>
   ((fs w (cwd w @ [''results'']) \<noteq> None \<or> fs w (cwd w) = Some Dir) \<and> length argv = 2 \<and>
    load (prepared w) (argv ! 1) = Inl e \<longrightarrow>
      main lib argv w = (Some e, prepared w)) \<and>
   main lib (prog # arg1 # arg2 # extra) w = main lib [prog, arg1, arg2] w"
proof (intro conjI impI)
  show "fst (main lib argv w) \<noteq> None" if l: "length argv < 3"
  proof
    assume n: "fst (main lib argv w) = None"
    from main_None [OF n] obtain a2 where "argv_at argv 2 = Inr a2" by blast
    with l show False by (simp add: argv_at_def split: if_splits)
  qed
  show "main lib argv w = (Some IndexError, prepared w)"
    if "(fs w (cwd w @ [''results'']) \<noteq> None \<or> fs w (cwd w) = Some Dir) \<and> length argv < 2"
  proof -
    have "argv_at argv 1 = Inl IndexError"
      using that by (simp add: argv_at_def)
    then show ?thesis
      using that by (simp add: main_prepared)
  qed
  show "main lib argv w = (Some IndexError, prepared w)"
    if "(fs w (cwd w @ [''results'']) \<noteq> None \<or> fs w (cwd w) = Some Dir) \<and> length argv = 2 \<and>
        load (prepared w) (argv ! 1) = Inr dm"
  proof -
    have "argv_at argv 1 = Inr (argv ! 1)" "argv_at argv 2 = Inl IndexError"
      using that by (simp_all add: argv_at_def)
    then show ?thesis
      using that by (simp add: main_prepared)
  qed
  show "main lib argv w = (Some e, prepared w)"
    if "(fs w (cwd w @ [''results'']) \<noteq> None \<or> fs w (cwd w) = Some Dir) \<and> length argv = 2 \<and>
        load (prepared w) (argv ! 1) = Inl e"
  proof -
    have "argv_at argv 1 = Inr (argv ! 1)"
      using that by (simp add: argv_at_def)
    then show ?thesis
      using that by (simp add: main_prepared)
  qed
  have a: "argv_at (prog # arg1 # arg2 # extra) 1 = Inr arg1" "argv_at [prog, arg1, arg2] 1 = Inr arg1"
    "argv_at (prog # arg1 # arg2 # extra) 2 = Inr arg2" "argv_at [prog, arg1, arg2] 2 = Inr arg2"
    by (simp_all add: argv_at_def)
  show "main lib (prog # arg1 # arg2 # extra) w = main lib [prog, arg1, arg2] w"
    unfolding main_def a by (rule refl)
qed

theorem argument_count_witness:
  "length [''performance-boxplot.py''] < 2 \<and>
   fs (start [''work''] (demo_fs scenario_master scenario_current)) [''work''] = Some Dir \<and>
   fst (main accepting [''performance-boxplot.py'']
          (start [''work''] (demo_fs scenario_master scenario_current))) \<noteq> None \<and>
   main accepting [''performance-boxplot.py'']
      (start [''work''] (demo_fs scenario_master scenario_current)) =
     (Some IndexError, prepared (start [''work''] (demo_fs scenario_master scenario_current))) \<and>
   length [''performance-boxplot.py'', ''master.json''] = 2 \<and>
   load (prepared (start [''work''] (demo_fs scenario_master scenario_current))) ''master.json'' =
     Inr scenario_master \<and>
   main accepting [''performance-boxplot.py'', ''master.json'']
      (start [''work''] (demo_fs scenario_master scenario_current)) =
     (Some IndexError, prepared (start [''work''] (demo_fs scenario_master scenario_current))) \<and>
   load (prepared (start [''work''] (demo_fs scenario_master scenario_current))) ''nosuch.json'' =
     Inl FileNotFoundError \<and>
   main accepting [''performance-boxplot.py'', ''nosuch.json'']
      (start [''work''] (demo_fs scenario_master scenario_current)) =
     (Some FileNotFoundError, prepared (start [''work''] (demo_fs scenario_master scenario_current))) \<and>
   fs (prepared (start [''work''] (demo_fs scenario_master scenario_current))) [''work'', ''results''] =
     Some Dir"
proof -
  let ?w = "start [''work''] (demo_fs scenario_master scenario_current)"
  have d: "fs ?w [''work''] = Some Dir" "cwd ?w = [''work'']"
    by (simp_all add: start_def demo_fs_def)
  have l: "load (prepared ?w) ''master.json'' = Inr scenario_master"
    "load (prepared ?w) ''nosuch.json'' = Inl FileNotFoundError"
    by (simp_all add: load_def open_read_def json_load_def resolve_def prepared_def start_def demo_fs_def)
  have r: "fs (prepared ?w) [''work'', ''results''] = Some Dir"
    by (simp add: prepared_def start_def demo_fs_def)
  have 1: "fst (main accepting [''performance-boxplot.py''] ?w) \<noteq> None"
    and 2: "main accepting [''performance-boxplot.py''] ?w = (Some IndexError, prepared ?w)"
    using d argument_count [of "[''performance-boxplot.py'']" accepting ?w] by simp_all
  have 3: "main accepting [''performance-boxplot.py'', ''master.json''] ?w = (Some IndexError, prepared ?w)"
    using d l argument_count [of "[''performance-boxplot.py'', ''master.json'']" accepting ?w scenario_master]
    by simp
  have 4: "main accepting [''performance-boxplot.py'', ''nosuch.json''] ?w = (Some FileNotFoundError, prepared ?w)"
    using d l argument_count [of "[''performance-boxplot.py'', ''nosuch.json'']" accepting ?w _ FileNotFoundError]
    by simp
  show ?thesis
    using d l r 1 2 3 4 by simp
qed

text \<open>
  C6 (as stated) fails: with a third positional argument the scenario's run ends without
  an error and saves the chart.
\<close>

theorem extra_argument_counterexample:
  "main accepting [''performance-boxplot.py'', ''master.json'', ''current.json'', ''extra.json'']
          (start [''work''] (demo_fs scenario_master scenario_current)) =
   (None, save_chart scenario_master scenario_current ''cat1''
      \<lparr>cwd = [''work'', ''results''],
       fs = (demo_fs scenario_master scenario_current)([''work'', ''results''] \<mapsto> Dir),
       fig = \<lparr>plots = [], size_inches = (6.4, 4.8)\<rparr>, saved = []\<rparr>)"
  by (simp add: run_defs save_chart_def chart_def)

text \<open>
  C8. The input paths are resolved in the working directory the process started in: both
  files are read before the working directory becomes \<^verbatim>\<open>results\<close>. A run that
  ends without error found both documents at the paths resolved from the initial
  working directory and charts exactly those; when one of these paths holds no file the
  run fails, whatever lies under \<^verbatim>\<open>results\<close>.
\<close>

theorem inputs_read_from_original_cwd:
  assumes "argv_at argv 1 = Inr arg1" and "argv_at argv 2 = Inr arg2"
  shows "(fst (main lib argv w) = None \<longrightarrow>
      (\<exists>dm dc. fs w (resolve (cwd w) arg1) = Some (File (Json dm)) \<and>
               fs w (resolve (cwd w) arg2) = Some (File (Json dc)) \<and>
               main lib argv w =
                 loop lib dm dc (keys dm) ((prepared w)\<lparr>cwd := cwd w @ [''results'']\<rparr>))) \<and>
     ((\<forall>c. fs w (resolve (cwd w) arg1) \<noteq> Some (File c)) \<or>
      (\<forall>c. fs w (resolve (cwd w) arg2) \<noteq> Some (File c)) \<longrightarrow>
      fst (main lib argv w) \<noteq> None)"
proof -
  have 1: "\<exists>dm dc. fs w (resolve (cwd w) arg1) = Some (File (Json dm)) \<and>
               fs w (resolve (cwd w) arg2) = Some (File (Json dc)) \<and>
               main lib argv w =
                 loop lib dm dc (keys dm) ((prepared w)\<lparr>cwd := cwd w @ [''results'']\<rparr>)"
    if n: "fst (main lib argv w) = None"
  proof -
    from main_None [OF n] assms obtain dm dc where
      p: "fs w (cwd w @ [''results'']) = Some Dir \<or>
          fs w (cwd w @ [''results'']) = None \<and> fs w (cwd w) = Some Dir"
      and l: "load w arg1 = Inr dm" "load w arg2 = Inr dc"
      by auto
    have "main lib argv w = loop lib dm dc (keys dm) ((prepared w)\<lparr>cwd := cwd w @ [''results'']\<rparr>)"
      using p assms l by (rule main_ok)
    with l show ?thesis
      by (auto simp: load_Inr)
  qed
  then show ?thesis
    by auto
qed

theorem inputs_read_from_original_cwd_witness:
  "argv_at demo_argv 1 = Inr ''master.json'' \<and> argv_at demo_argv 2 = Inr ''current.json'' \<and>
   fst (main accepting demo_argv (start [''work''] decoy_fs)) = None \<and>
   decoy_fs (resolve [''work''] ''master.json'') = Some (File (Json scenario_master)) \<and>
   decoy_fs (resolve [''work'', ''results''] ''master.json'') = Some (File (Json [])) \<and>
   main accepting demo_argv (start [''work''] decoy_fs) =
     loop accepting scenario_master scenario_current (keys scenario_master)
       ((prepared (start [''work''] decoy_fs))\<lparr>cwd := [''work'', ''results'']\<rparr>) \<and>
   (\<forall>c. misplaced_fs (resolve [''work''] ''master.json'') \<noteq> Some (File c)) \<and>
   misplaced_fs (resolve [''work'', ''results''] ''master.json'') = Some (File (Json scenario_master)) \<and>
   fst (main accepting demo_argv (start [''work''] misplaced_fs)) \<noteq> None"
proof -
  have a: "argv_at demo_argv 1 = Inr ''master.json''" "argv_at demo_argv 2 = Inr ''current.json''"
    by (simp_all add: argv_at_def demo_argv_def)
  have n: "fst (main accepting demo_argv (start [''work''] decoy_fs)) = None"
    by (simp add: run_defs decoy_fs_def)
  have d: "decoy_fs (resolve [''work''] ''master.json'') = Some (File (Json scenario_master))"
    "decoy_fs (resolve [''work''] ''current.json'') = Some (File (Json scenario_current))"
    "decoy_fs (resolve [''work'', ''results''] ''master.json'') = Some (File (Json []))"
    by (simp_all add: resolve_def decoy_fs_def demo_fs_def)
  have m: "\<forall>c. misplaced_fs (resolve [''work''] ''master.json'') \<noteq> Some (File c)"
    "misplaced_fs (resolve [''work'', ''results''] ''master.json'') = Some (File (Json scenario_master))"
    by (simp_all add: resolve_def misplaced_fs_def)
  have s1: "fs (start [''work''] f) = f" "cwd (start [''work''] f) = [''work'']" for f
    by (simp_all add: start_def)
  show ?thesis
    using a n d m
      inputs_read_from_original_cwd [OF a, of accepting "start [''work''] decoy_fs"]
      inputs_read_from_original_cwd [OF a, of accepting "start [''work''] misplaced_fs"]
    by (auto simp: s1)
qed

section \<open>Data sets that do not match\<close>

lemma body_fails: "concated_of dm dc p = Inl e \<Longrightarrow> body lib dm dc p w = Inl e"
  by (simp add: body_def)

lemma loop_fails: "p \<in> set ps \<Longrightarrow> concated_of dm dc p = Inl e \<Longrightarrow> fst (loop lib dm dc ps w) \<noteq> None"
proof (induction ps arbitrary: w)
  case Nil
  then show ?case by simp
next
  case (Cons q ps)
  show ?case
  proof (cases "body lib dm dc q w")
    case (Inl e')
    then show ?thesis by simp
  next
    case (Inr w')
    then have "q \<noteq> p"
      using Cons.prems(2) by (auto simp: body_fails)
    then have "p \<in> set ps"
      using Cons.prems(1) by simp
    then show ?thesis
      using Inr Cons.IH Cons.prems(2) by simp
  qed
qed

lemma getitem_missing: "p \<notin> set (keys d) \<Longrightarrow> getitem d p = Inl KeyError"
proof -
  assume "p \<notin> set (keys d)"
  then have "map_of d p = None"
    by (simp add: keys_def map_of_eq_None_iff)
  then show ?thesis
    by (simp add: getitem_def)
qed

lemma getitem_present: "p \<in> set (keys d) \<Longrightarrow> \<exists>v. getitem d p = Inr v"
  by (cases "map_of d p") (auto simp: getitem_def keys_def map_of_eq_None_iff)

lemma getitem_Inr_key: "getitem d p = Inr v \<Longrightarrow> p \<in> set (keys d)"
  by (auto simp: getitem_def keys_def split: option.splits dest: map_of_SomeD intro: rev_image_eqI)

lemma concated_missing:
  "p \<in> set (keys dm) \<Longrightarrow> p \<notin> set (keys dc) \<Longrightarrow> \<exists>e. concated_of dm dc p = Inl e"
  using getitem_present [of p dm] getitem_missing [of p dc]
  by (auto simp: concated_of_def split: sum.splits)

lemma concated_both:
  "getitem dm p = Inr tm \<Longrightarrow> getitem dc p = Inr tc \<Longrightarrow> tabular tm \<Longrightarrow> tabular tc \<Longrightarrow>
   concated_of dm dc p =
     Inr (concat_ignore_index (set_branch ''master'' (unpivot tm)) (set_branch ''current'' (unpivot tc)))"
  by (simp add: concated_of_def long_form_eq)

lemma concated_missing_error:
  "getitem dm p = Inr tm \<Longrightarrow> p \<notin> set (keys dc) \<Longrightarrow>
   concated_of dm dc p = Inl (if tabular tm then KeyError else ValueError)"
  using getitem_missing [of p dc] by (simp add: concated_of_def long_form_eq)

text \<open>
  C2 (as the code has it). When the current data set lacks a category of the master, the run
  ends with an error, and the turn of the loop for that category fails and saves nothing:
  with KeyError at \<^verbatim>\<open>data_current[pallet]\<close>, or with ValueError before that when the
  master's table of the category cannot be built (tests of different sample counts, or a
  test named \<^verbatim>\<open>Time\<close>). When the category is in both data sets and both tables can be
  built, whatever tests the current one has, the combined table is built from what is
  there, and the chart is saved when the libraries accept it and the file can be written.
\<close>

theorem data_mismatch:
  "(argv_at argv 1 = Inr arg1 \<and> argv_at argv 2 = Inr arg2 \<and>
    load w arg1 = Inr dm \<and> load w arg2 = Inr dc \<and>
    getitem dm pallet = Inr tm \<and> pallet \<notin> set (keys dc) \<longrightarrow>
      fst (main lib argv w) \<noteq> None \<and>
      body lib dm dc pallet v = Inl (if tabular tm then KeyError else ValueError)) \<and>
   (getitem dm pallet = Inr tm \<and> getitem dc pallet = Inr tc \<and> tabular tm \<and> tabular tc \<and>
    plots (fig v) = [] \<and>
    boxplot_ok lib (concat_ignore_index (set_branch ''master'' (unpivot tm)) (set_branch ''current'' (unpivot tc))) \<and>
    savefig_ok lib (chart dm dc pallet) \<and>
    fs v (resolve (cwd v) (savefig_name (pallet @ ''.png''))) \<noteq> Some Dir \<and>
    fs v (butlast (resolve (cwd v) (savefig_name (pallet @ ''.png'')))) = Some Dir \<longrightarrow>
      concated_of dm dc pallet =
        Inr (concat_ignore_index (set_branch ''master'' (unpivot tm)) (set_branch ''current'' (unpivot tc))) \<and>
      body lib dm dc pallet v = Inr (save_chart dm dc pallet v))"
proof (intro conjI impI)
  assume h: "argv_at argv 1 = Inr arg1 \<and> argv_at argv 2 = Inr arg2 \<and>
    load w arg1 = Inr dm \<and> load w arg2 = Inr dc \<and>
    getitem dm pallet = Inr tm \<and> pallet \<notin> set (keys dc)"
  then have e: "concated_of dm dc pallet = Inl (if tabular tm then KeyError else ValueError)"
    by (simp add: concated_missing_error)
  from h have "getitem dm pallet = Inr tm"
    by simp
  then have k: "pallet \<in> set (keys dm)"
    by (rule getitem_Inr_key)
  show "fst (main lib argv w) \<noteq> None"
  proof
    assume n: "fst (main lib argv w) = None"
    from main_None [OF n] h have
      p: "fs w (cwd w @ [''results'']) = Some Dir \<or>
          fs w (cwd w @ [''results'']) = None \<and> fs w (cwd w) = Some Dir"
      by auto
    have "main lib argv w = loop lib dm dc (keys dm) ((prepared w)\<lparr>cwd := cwd w @ [''results'']\<rparr>)"
      using p h by (intro main_ok) auto
    with n loop_fails [OF k e] show False
      by auto
  qed
  show "body lib dm dc pallet v = Inl (if tabular tm then KeyError else ValueError)"
    using e by (rule body_fails)
next
  assume h: "getitem dm pallet = Inr tm \<and> getitem dc pallet = Inr tc \<and> tabular tm \<and> tabular tc \<and>
    plots (fig v) = [] \<and>
    boxplot_ok lib (concat_ignore_index (set_branch ''master'' (unpivot tm)) (set_branch ''current'' (unpivot tc))) \<and>
    savefig_ok lib (chart dm dc pallet) \<and>
    fs v (resolve (cwd v) (savefig_name (pallet @ ''.png''))) \<noteq> Some Dir \<and>
    fs v (butlast (resolve (cwd v) (savefig_name (pallet @ ''.png'')))) = Some Dir"
  then show c: "concated_of dm dc pallet =
        Inr (concat_ignore_index (set_branch ''master'' (unpivot tm)) (set_branch ''current'' (unpivot tc)))"
    by (simp add: concated_both)
  have "step_ok lib dm dc (cwd v) (fs v) pallet"
    using h by (simp add: step_ok_def c)
  then show "body lib dm dc pallet v = Inr (save_chart dm dc pallet v)"
    using h by (simp add: body_ok)
qed

text \<open>
  C2 (as stated) fails: with the scenario's master data and a current document without
  any category the run ends with KeyError and saves nothing.
\<close>

theorem missing_category_counterexample:
  "fst (main accepting demo_argv (start [''work''] (demo_fs scenario_master []))) = Some KeyError \<and>
   saved (snd (main accepting demo_argv (start [''work''] (demo_fs scenario_master [])))) = []"
  by (simp add: run_defs)

theorem data_mismatch_witness:
  "argv_at demo_argv 1 = Inr ''master.json'' \<and> argv_at demo_argv 2 = Inr ''current.json'' \<and>
   load (start [''work''] (demo_fs scenario_master [])) ''master.json'' = Inr scenario_master \<and>
   load (start [''work''] (demo_fs scenario_master [])) ''current.json'' = Inr [] \<and>
   ''cat1'' \<notin> set (keys ([] :: dataset)) \<and>
   getitem scenario_master ''cat1'' = Inr [(''testA'', [1, 2, 3]), (''testB'', [4, 5, 6])] \<and>
   tabular [(''testA'', [1, 2, 3]), (''testB'', [4, 5, 6])] \<and>
   fst (main accepting demo_argv (start [''work''] (demo_fs scenario_master []))) \<noteq> None \<and>
   body accepting scenario_master [] ''cat1'' (start [''work'', ''results''] [[''work'', ''results''] \<mapsto> Dir])
     = Inl KeyError \<and>
   getitem ragged_data ''cat1'' = Inr [(''testA'', [1, 2, 3]), (''testB'', [4, 5])] \<and>
   \<not> tabular [(''testA'', [1, 2, 3]), (''testB'', [4, 5])] \<and>
   body accepting ragged_data [] ''cat1'' (start [''work'', ''results''] [[''work'', ''results''] \<mapsto> Dir])
     = Inl ValueError \<and>
   getitem partial_current ''cat1'' = Inr [(''testA'', [2, 3, 4])] \<and>
   tabular [(''testA'', [2, 3, 4])] \<and>
   body accepting scenario_master partial_current ''cat1''
       (start [''work'', ''results''] [[''work'', ''results''] \<mapsto> Dir]) =
     Inr (save_chart scenario_master partial_current ''cat1''
       (start [''work'', ''results''] [[''work'', ''results''] \<mapsto> Dir]))"
proof -
  let ?v = "start [''work'', ''results''] [[''work'', ''results''] \<mapsto> Dir]"
  have a: "argv_at demo_argv 1 = Inr ''master.json''" "argv_at demo_argv 2 = Inr ''current.json''"
    by (simp_all add: argv_at_def demo_argv_def)
  have l: "load (start [''work''] (demo_fs scenario_master [])) ''master.json'' = Inr scenario_master"
    "load (start [''work''] (demo_fs scenario_master [])) ''current.json'' = Inr []"
    "load (start [''work''] (demo_fs ragged_data [])) ''master.json'' = Inr ragged_data"
    "load (start [''work''] (demo_fs ragged_data [])) ''current.json'' = Inr []"
    by (simp_all add: load_def open_read_def json_load_def resolve_def start_def demo_fs_def)
  have k: "''cat1'' \<notin> set (keys ([] :: dataset))"
    by (simp add: keys_def)
  have g: "getitem scenario_master ''cat1'' = Inr [(''testA'', [1, 2, 3]), (''testB'', [4, 5, 6])]"
    "getitem partial_current ''cat1'' = Inr [(''testA'', [2, 3, 4])]"
    "getitem ragged_data ''cat1'' = Inr [(''testA'', [1, 2, 3]), (''testB'', [4, 5])]"
    by (simp_all add: getitem_def scenario_master_def partial_current_def ragged_data_def)
  have u: "tabular [(''testA'', [1, 2, 3]), (''testB'', [4, 5, 6])]"
    "tabular [(''testA'', [2, 3, 4])]"
    "\<not> tabular [(''testA'', [1, 2, 3]), (''testB'', [4, 5])]"
    by (simp_all add: tabular_def same_length_def keys_def)
  have v: "plots (fig ?v) = []"
    "fs ?v (resolve (cwd ?v) (savefig_name (''cat1'' @ ''.png''))) \<noteq> Some Dir"
    "fs ?v (butlast (resolve (cwd ?v) (savefig_name (''cat1'' @ ''.png'')))) = Some Dir"
    by (simp_all add: start_def resolve_def savefig_name_def splitext_ext_def)
  have b: "boxplot_ok accepting t" "savefig_ok accepting f" for t f
    by (simp_all add: accepting_def)
  have 1: "fst (main accepting demo_argv (start [''work''] (demo_fs scenario_master []))) \<noteq> None"
    "body accepting scenario_master [] ''cat1'' ?v = Inl KeyError"
    using a l k g u
      data_mismatch [of demo_argv "''master.json''" "''current.json''"
        "start [''work''] (demo_fs scenario_master [])" scenario_master "[]" "''cat1''"
        "[(''testA'', [1, 2, 3]), (''testB'', [4, 5, 6])]" accepting ?v]
    by simp_all
  have 2: "body accepting ragged_data [] ''cat1'' ?v = Inl ValueError"
    using a l k g u
      data_mismatch [of demo_argv "''master.json''" "''current.json''"
        "start [''work''] (demo_fs ragged_data [])" ragged_data "[]" "''cat1''"
        "[(''testA'', [1, 2, 3]), (''testB'', [4, 5])]" accepting ?v]
    by simp
  have 3: "body accepting scenario_master partial_current ''cat1'' ?v =
     Inr (save_chart scenario_master partial_current ''cat1'' ?v)"
    using g u v b
      data_mismatch [of demo_argv "''master.json''" "''current.json''"
        "start [''work''] (demo_fs scenario_master [])" scenario_master partial_current "''cat1''"
        "[(''testA'', [1, 2, 3]), (''testB'', [4, 5, 6])]" accepting ?v "[(''testA'', [2, 3, 4])]"]
    by simp
  show ?thesis
    using a l k g u 1 2 3 by simp
qed

section \<open>The size of the saved figure\<close>

lemma tests_of_melt:
  "map (\<lambda>(i, r). Test r) (set_branch label (unpivot df)) =
   map fst (concat (map (\<lambda>(name, values). map (Pair name) values) df))"
proof -
  have "map (\<lambda>(i, r). Test r) (set_branch label (unpivot df)) = map (fst \<circ> snd) (unpivot df)"
    by (simp add: set_branch_def split_def comp_def)
  also have "\<dots> = map fst (map snd (unpivot df))"
    by simp
  finally show ?thesis
    by (simp add: melt_def unpivot_def)
qed

lemma names_of_melt:
  "set (map (\<lambda>(i, r). Test r) (set_branch label (unpivot df))) = {n. \<exists>vs. (n, vs) \<in> set df \<and> vs \<noteq> []}"
  unfolding tests_of_melt by (induction df) (auto simp: image_iff)

lemma names_of_concat:
  "map (\<lambda>(i, r). Test r) (concat_ignore_index a b) = map (\<lambda>(i, r). Test r) a @ map (\<lambda>(i, r). Test r) b"
proof -
  have "map (\<lambda>(i, r). Test r) (concat_ignore_index a b) = map Test (map snd (concat_ignore_index a b))"
    by (simp add: split_def comp_def)
  also have "\<dots> = map Test (map snd a @ map snd b)"
    by (simp add: concat_ignore_index_def)
  finally show ?thesis
    by (simp add: split_def comp_def)
qed

lemma test_names_count:
  assumes "getitem dm p = Inr tm" "getitem dc p = Inr tc" "concated_of dm dc p = Inr t"
    and "dict_ok tm" "list_all (\<lambda>(name, values). values \<noteq> []) tm" "set (keys tc) \<subseteq> set (keys tm)"
  shows "length (test_names t) = length tm"
proof -
  have t: "t = concat_ignore_index (set_branch ''master'' (unpivot tm)) (set_branch ''current'' (unpivot tc))"
    using assms(1,2,3) by (auto simp: concated_of_def long_form_eq split: if_splits)
  have "set (test_names t) =
     {n. \<exists>vs. (n, vs) \<in> set tm \<and> vs \<noteq> []} \<union> {n. \<exists>vs. (n, vs) \<in> set tc \<and> vs \<noteq> []}"
    unfolding test_names_def t by (simp only: set_remdups names_of_concat set_append names_of_melt)
  also have "\<dots> = set (keys tm)"
  proof -
    have a: "{n. \<exists>vs. (n, vs) \<in> set tm \<and> vs \<noteq> []} = fst ` set tm"
    proof (intro equalityI subsetI)
      fix n assume "n \<in> {n. \<exists>vs. (n, vs) \<in> set tm \<and> vs \<noteq> []}"
      then obtain vs where "(n, vs) \<in> set tm" by blast
      then show "n \<in> fst ` set tm" by (rule rev_image_eqI) simp
    next
      fix n assume "n \<in> fst ` set tm"
      then obtain vs where m: "(n, vs) \<in> set tm" by auto
      with assms(5) have "vs \<noteq> []"
        unfolding list_all_iff by blast
      with m show "n \<in> {n. \<exists>vs. (n, vs) \<in> set tm \<and> vs \<noteq> []}" by blast
    qed
    have b: "{n. \<exists>vs. (n, vs) \<in> set tc \<and> vs \<noteq> []} \<subseteq> fst ` set tc"
    proof
      fix n assume "n \<in> {n. \<exists>vs. (n, vs) \<in> set tc \<and> vs \<noteq> []}"
      then obtain vs where "(n, vs) \<in> set tc" by blast
      then show "n \<in> fst ` set tc" by (rule rev_image_eqI) simp
    qed
    have "fst ` set tc \<subseteq> fst ` set tm"
      using assms(6) by (simp add: keys_def)
    with a b show ?thesis
      unfolding keys_def set_map by blast
  qed
  finally have "card (set (test_names t)) = card (set (keys tm))"
    by simp
  moreover have "distinct (test_names t)"
    by (simp add: test_names_def)
  moreover have "card (set (keys tm)) = length tm"
    using assms(4) distinct_card [of "keys tm"] by (simp add: dict_ok_def keys_def)
  ultimately show ?thesis
    by (simp add: distinct_card)
qed

text \<open>
  C3 (as the code has it). The figure saved for a category is 15.5 wide and 0.6 times N
  high, where N is the number of tests of the category in the master data set. N is the
  number of distinct test names of the combined table when every test of the master has a
  sample and the current data set has no test name of its own.
\<close>

theorem saved_figure_size:
  assumes "body lib dm dc pallet w = Inr w'"
  shows "\<exists>tm tc t f. getitem dm pallet = Inr tm \<and> getitem dc pallet = Inr tc \<and>
     concated_of dm dc pallet = Inr t \<and>
     fs w' (resolve (cwd w) (savefig_name (pallet @ ''.png''))) = Some (File (Png f)) \<and>
     size_inches f = (15.5, 0.6 * real (length tm)) \<and>
     (dict_ok tm \<and> list_all (\<lambda>(name, values). values \<noteq> []) tm \<and> set (keys tc) \<subseteq> set (keys tm) \<longrightarrow>
        length (test_names t) = length tm)"
proof -
  from assms obtain t where t: "concated_of dm dc pallet = Inr t"
    by (auto simp: body_def split: sum.splits)
  then obtain tm tc where g: "getitem dm pallet = Inr tm" "getitem dc pallet = Inr tc"
    by (auto simp: concated_of_def split: sum.splits)
  from assms obtain f where f: "fs w' (resolve (cwd w) (savefig_name (pallet @ ''.png''))) = Some (File (Png f))"
    "size_inches f = (15.5, 0.6 * real (length tm))"
    by (auto simp: body_def t g seaborn_boxplot_def set_size_inches_def savefig_def clf_def Let_def
        figure_width_def item_height_def split: if_splits option.splits node.splits)
  show ?thesis
    using t g f test_names_count [OF g t] by blast
qed

theorem saved_figure_size_witness:
  "body accepting scenario_master scenario_current ''cat1''
       (start [''work'', ''results''] [[''work'', ''results''] \<mapsto> Dir]) =
     Inr (save_chart scenario_master scenario_current ''cat1''
       (start [''work'', ''results''] [[''work'', ''results''] \<mapsto> Dir])) \<and>
   (\<exists>tm tc t f. getitem scenario_master ''cat1'' = Inr tm \<and> getitem scenario_current ''cat1'' = Inr tc \<and>
     concated_of scenario_master scenario_current ''cat1'' = Inr t \<and>
     fs (save_chart scenario_master scenario_current ''cat1''
          (start [''work'', ''results''] [[''work'', ''results''] \<mapsto> Dir]))
        (resolve (cwd (start [''work'', ''results''] [[''work'', ''results''] \<mapsto> Dir])) (savefig_name (''cat1'' @ ''.png'')))
       = Some (File (Png f)) \<and>
     size_inches f = (15.5, 0.6 * real (length tm)) \<and>
     (dict_ok tm \<and> list_all (\<lambda>(name, values). values \<noteq> []) tm \<and> set (keys tc) \<subseteq> set (keys tm) \<longrightarrow>
        length (test_names t) = length tm)) \<and>
   dict_ok [(''testA'', [1, 2, 3 :: real]), (''testB'', [4, 5, 6])] \<and>
   list_all (\<lambda>(name, values). values \<noteq> []) [(''testA'', [1, 2, 3 :: real]), (''testB'', [4, 5, 6])] \<and>
   set (keys [(''testA'', [2, 3, 4 :: real]), (''testB'', [3, 4, 5])]) \<subseteq>
     set (keys [(''testA'', [1, 2, 3 :: real]), (''testB'', [4, 5, 6])])"
proof -
  have h: "body accepting scenario_master scenario_current ''cat1''
       (start [''work'', ''results''] [[''work'', ''results''] \<mapsto> Dir]) =
     Inr (save_chart scenario_master scenario_current ''cat1''
       (start [''work'', ''results''] [[''work'', ''results''] \<mapsto> Dir]))"
    by (simp add: run_defs save_chart_def chart_def)
  have k: "dict_ok [(''testA'', [1, 2, 3 :: real]), (''testB'', [4, 5, 6])]"
    "list_all (\<lambda>(name, values). values \<noteq> []) [(''testA'', [1, 2, 3 :: real]), (''testB'', [4, 5, 6])]"
    "set (keys [(''testA'', [2, 3, 4 :: real]), (''testB'', [3, 4, 5])]) \<subseteq>
     set (keys [(''testA'', [1, 2, 3 :: real]), (''testB'', [4, 5, 6])])"
    by (simp_all add: dict_ok_def keys_def)
  show ?thesis
    using h k saved_figure_size [OF h] by blast
qed

text \<open>
  C3 (as stated) fails: with a test in the current data set that the master does not
  have, the combined table has three distinct test names and the saved figure is 1.2
  high, not 1.8.
\<close>

theorem extra_test_counterexample:
  "fs (snd (main accepting demo_argv (start [''work''] (demo_fs scenario_master extended_current))))
      [''work'', ''results'', ''cat1.png''] =
     Some (File (Png (chart scenario_master extended_current ''cat1''))) \<and>
   size_inches (chart scenario_master extended_current ''cat1'') = (15.5, 1.2) \<and>
   map (\<lambda>t. length (test_names t)) (plots (chart scenario_master extended_current ''cat1'')) = [3]"
  by (simp add: run_defs chart_def extended_current_def test_names_def)

section \<open>Runs that save every chart\<close>

lemma step_ok_save_charts:
  "\<forall>p \<in> set ps. step_ok lib dm dc (cwd w) (fs w) p \<Longrightarrow>
   step_ok lib dm dc (cwd w) (fs (save_charts dm dc ps w)) q = step_ok lib dm dc (cwd w) (fs w) q"
proof (induction ps arbitrary: w)
  case Nil
  then show ?case by simp
next
  case (Cons p ps)
  have t: "fs w (resolve (cwd w) (savefig_name (p @ ''.png''))) \<noteq> Some Dir"
    using Cons.prems step_ok_target by auto
  have st: "\<forall>r \<in> set ps. step_ok lib dm dc (cwd (save_chart dm dc p w)) (fs (save_chart dm dc p w)) r"
    using Cons.prems t by (simp add: step_ok_update)
  have "step_ok lib dm dc (cwd (save_chart dm dc p w)) (fs (save_charts dm dc ps (save_chart dm dc p w))) q =
        step_ok lib dm dc (cwd (save_chart dm dc p w)) (fs (save_chart dm dc p w)) q"
    using st by (rule Cons.IH)
  then show ?case
    using t by (simp add: step_ok_update)
qed

lemma save_charts_fs:
  "save_charts dm dc ps (w\<lparr>fs := m\<rparr>) =
     (save_charts dm dc ps w)\<lparr>fs := m ++ map_of (rev (map (\<lambda>p. (resolve (cwd w) (savefig_name (p @ ''.png'')), File (Png (chart dm dc p)))) ps))\<rparr>"
proof (induction ps arbitrary: w m)
  case Nil
  then show ?case by simp
next
  case (Cons p ps)
  have h: "save_chart dm dc p (w\<lparr>fs := m\<rparr>) =
        (save_chart dm dc p w)\<lparr>fs := m(resolve (cwd w) (savefig_name (p @ ''.png'')) \<mapsto> File (Png (chart dm dc p)))\<rparr>"
    by (simp add: save_chart_def)
  have e: "m ++ map_of (rev (map (\<lambda>p. (resolve (cwd w) (savefig_name (p @ ''.png'')), File (Png (chart dm dc p)))) (p # ps))) =
      m(resolve (cwd w) (savefig_name (p @ ''.png'')) \<mapsto> File (Png (chart dm dc p))) ++
      map_of (rev (map (\<lambda>p. (resolve (cwd w) (savefig_name (p @ ''.png'')), File (Png (chart dm dc p)))) ps))"
    by simp
  show ?case
    unfolding save_charts_Cons h Cons.IH e by simp
qed

lemma prepared_start:
  "cwd (prepared (start d f)) = d"
  "plots (fig (prepared (start d f))) = []"
  "saved (prepared (start d f)) = []"
  "fs (prepared (start d f)) = (if f (d @ [''results'']) = None then f(d @ [''results''] \<mapsto> Dir) else f)"
  by (simp_all add: prepared_def start_def)

lemma main_charts:
  assumes "f (d @ [''results'']) = Some Dir \<or> f (d @ [''results'']) = None \<and> f d = Some Dir"
    and "argv_at argv 1 = Inr a1" "argv_at argv 2 = Inr a2"
    and "load (start d f) a1 = Inr dm" "load (start d f) a2 = Inr dc"
    and "\<forall>p \<in> set (keys dm). step_ok lib dm dc (d @ [''results'']) (fs (prepared (start d f))) p"
  shows "main lib argv (start d f) =
     (None, save_charts dm dc (keys dm) ((prepared (start d f))\<lparr>cwd := d @ [''results'']\<rparr>))"
proof -
  have s: "cwd (start d f) = d" "fs (start d f) = f"
    by (simp_all add: start_def)
  have "main lib argv (start d f) =
      loop lib dm dc (keys dm) ((prepared (start d f))\<lparr>cwd := cwd (start d f) @ [''results'']\<rparr>)"
    using assms(1-5) by (intro main_ok) (simp_all add: s)
  moreover have "loop lib dm dc (keys dm) ((prepared (start d f))\<lparr>cwd := d @ [''results'']\<rparr>) =
      (None, save_charts dm dc (keys dm) ((prepared (start d f))\<lparr>cwd := d @ [''results'']\<rparr>))"
    using assms(6) by (intro loop_ok) (simp_all add: prepared_start)
  ultimately show ?thesis
    by (simp add: s)
qed

lemma step_ok_plain:
  assumes "CHR ''/'' \<notin> set p" "\<exists>x \<in> set p. x \<noteq> CHR ''.''"
    "concated_of dm dc p = Inr t" "boxplot_ok lib t"
    "savefig_ok lib (chart dm dc p)" "m r = Some Dir" "m (r @ [p @ ''.png'']) \<noteq> Some Dir"
  shows "step_ok lib dm dc r m p"
  using assms by (simp add: step_ok_def resolve_png)





lemma scenario_chart:
  "concated_of scenario_master scenario_current ''cat1'' = Inr scenario_table"
  "chart scenario_master scenario_current ''cat1'' = \<lparr>plots = [scenario_table], size_inches = (15.5, 1.2)\<rparr>"
  by (simp_all add: chart_def run_defs scenario_table_def)

text \<open>
  C5. The scenario of the specification: one file \<^verbatim>\<open>results/cat1.png\<close> is written; the
  combined table has 12 rows, the six rows of the master data set labelled master followed
  by the six rows of the current data set labelled current.
\<close>

theorem scenario_run:
  assumes "f (d @ [''results'']) = Some Dir \<or> f (d @ [''results'']) = None \<and> f d = Some Dir"
    and "argv_at argv 1 = Inr a1" "argv_at argv 2 = Inr a2"
    and "load (start d f) a1 = Inr scenario_master" "load (start d f) a2 = Inr scenario_current"
    and "boxplot_ok lib scenario_table"
    and "savefig_ok lib \<lparr>plots = [scenario_table], size_inches = (15.5, 1.2)\<rparr>"
    and "f (d @ [''results'', ''cat1.png'']) \<noteq> Some Dir"
  shows "\<exists>w'. main lib argv (start d f) = (None, w') \<and>
     saved w' = [d @ [''results'', ''cat1.png'']] \<and>
     fs w' (d @ [''results'', ''cat1.png'']) =
       Some (File (Png \<lparr>plots = [scenario_table], size_inches = (15.5, 1.2)\<rparr>)) \<and>
     concated_of scenario_master scenario_current ''cat1'' = Inr scenario_table \<and>
     length scenario_table = 12 \<and>
     map (\<lambda>(i, r). branch r) scenario_table = replicate 6 ''master'' @ replicate 6 ''current'' \<and>
     (\<exists>m c. long_form ''master'' [(''testA'', [1, 2, 3]), (''testB'', [4, 5, 6])] = Inr m \<and>
            long_form ''current'' [(''testA'', [2, 3, 4]), (''testB'', [3, 4, 5])] = Inr c \<and>
            map snd scenario_table = map snd m @ map snd c \<and> length m = 6 \<and> length c = 6 \<and>
            list_all (\<lambda>(i, r). branch r = ''master'') m \<and>
            list_all (\<lambda>(i, r). branch r = ''current'') c)"
proof -
  let ?r = "d @ [''results'']"
  let ?w = "save_charts scenario_master scenario_current (keys scenario_master)
              ((prepared (start d f))\<lparr>cwd := ?r\<rparr>)"
  have k: "keys scenario_master = [''cat1'']"
    by (simp add: keys_def scenario_master_def)
  have r: "fs (prepared (start d f)) ?r = Some Dir"
    using assms(1) by (auto simp: prepared_start)
  have t: "fs (prepared (start d f)) (?r @ [''cat1'' @ ''.png'']) \<noteq> Some Dir"
    using assms(8) by (simp add: prepared_start)
  have so: "savefig_ok lib (chart scenario_master scenario_current ''cat1'')"
    using assms(7) by (simp only: scenario_chart)
  have sl: "CHR ''/'' \<notin> set ''cat1''" and dt: "\<exists>x \<in> set ''cat1''. x \<noteq> CHR ''.''"
    by simp_all
  have "step_ok lib scenario_master scenario_current ?r (fs (prepared (start d f))) ''cat1''"
    using sl dt scenario_chart(1) assms(6) so r t by (rule step_ok_plain)
  then have m: "main lib argv (start d f) = (None, ?w)"
    using assms(1-5) by (intro main_charts) (auto simp: k)
  have p: "resolve ?r (savefig_name ''cat1.png'') = d @ [''results'', ''cat1.png'']"
    using resolve_png [of "''cat1''" ?r] by simp
  have sv: "saved ?w = [d @ [''results'', ''cat1.png'']]"
    by (simp add: k prepared_start p)
  have fl: "fs ?w (d @ [''results'', ''cat1.png'']) =
       Some (File (Png \<lparr>plots = [scenario_table], size_inches = (15.5, 1.2)\<rparr>))"
    by (simp add: k p scenario_chart)
  have tb: "length scenario_table = 12"
    "map (\<lambda>(i, r). branch r) scenario_table = replicate 6 ''master'' @ replicate 6 ''current''"
    by (simp_all add: scenario_table_def numeral_eq_Suc)
  have lf: "\<exists>m c. long_form ''master'' [(''testA'', [1, 2, 3]), (''testB'', [4, 5, 6])] = Inr m \<and>
            long_form ''current'' [(''testA'', [2, 3, 4]), (''testB'', [3, 4, 5])] = Inr c \<and>
            map snd scenario_table = map snd m @ map snd c \<and> length m = 6 \<and> length c = 6 \<and>
            list_all (\<lambda>(i, r). branch r = ''master'') m \<and>
            list_all (\<lambda>(i, r). branch r = ''current'') c"
    by (simp add: long_form_def DataFrame_def same_length_def melt_def unpivot_def set_branch_def
        enumerate_eq_zip scenario_table_def)
  show ?thesis
    using m sv fl scenario_chart(1) tb lf by blast
qed

theorem scenario_run_witness:
  "\<exists>w'. main accepting demo_argv (start [''work''] (demo_fs scenario_master scenario_current)) = (None, w') \<and>
     saved w' = [[''work''] @ [''results'', ''cat1.png'']] \<and>
     fs w' ([''work''] @ [''results'', ''cat1.png'']) =
       Some (File (Png \<lparr>plots = [scenario_table], size_inches = (15.5, 1.2)\<rparr>)) \<and>
     concated_of scenario_master scenario_current ''cat1'' = Inr scenario_table \<and>
     length scenario_table = 12 \<and>
     map (\<lambda>(i, r). branch r) scenario_table = replicate 6 ''master'' @ replicate 6 ''current'' \<and>
     (\<exists>m c. long_form ''master'' [(''testA'', [1, 2, 3]), (''testB'', [4, 5, 6])] = Inr m \<and>
            long_form ''current'' [(''testA'', [2, 3, 4]), (''testB'', [3, 4, 5])] = Inr c \<and>
            map snd scenario_table = map snd m @ map snd c \<and> length m = 6 \<and> length c = 6 \<and>
            list_all (\<lambda>(i, r). branch r = ''master'') m \<and>
            list_all (\<lambda>(i, r). branch r = ''current'') c)"
proof -
  have 1: "demo_fs scenario_master scenario_current ([''work''] @ [''results'']) = Some Dir \<or>
     demo_fs scenario_master scenario_current ([''work''] @ [''results'']) = None \<and>
     demo_fs scenario_master scenario_current [''work''] = Some Dir"
    by (simp add: demo_fs_def)
  have 2: "argv_at demo_argv 1 = Inr ''master.json''" and 3: "argv_at demo_argv 2 = Inr ''current.json''"
    by (simp_all add: argv_at_def demo_argv_def)
  have 4: "load (start [''work''] (demo_fs scenario_master scenario_current)) ''master.json'' = Inr scenario_master"
    and 5: "load (start [''work''] (demo_fs scenario_master scenario_current)) ''current.json'' = Inr scenario_current"
    by (simp_all add: load_def open_read_def json_load_def resolve_def start_def demo_fs_def)
  have 6: "boxplot_ok accepting scenario_table"
    and 7: "savefig_ok accepting \<lparr>plots = [scenario_table], size_inches = (15.5, 1.2)\<rparr>"
    by (simp_all add: accepting_def)
  have 8: "demo_fs scenario_master scenario_current ([''work''] @ [''results'', ''cat1.png'']) \<noteq> Some Dir"
    by (simp add: demo_fs_def)
  show ?thesis
    using scenario_run [OF 1 2 3 4 5 6 7 8] .
qed

lemma saved_are_files:
  "p \<in> set (saved (save_charts dm dc ps w)) \<Longrightarrow> p \<notin> set (saved w) \<Longrightarrow>
   \<exists>c. fs (save_charts dm dc ps w) p = Some (File c)"
proof -
  let ?kv = "rev (map (\<lambda>q. (resolve (cwd w) (savefig_name (q @ ''.png'')), File (Png (chart dm dc q)))) ps)"
  assume "p \<in> set (saved (save_charts dm dc ps w))" "p \<notin> set (saved w)"
  then have "p \<in> fst ` set ?kv"
    by (auto simp: saved_save_charts image_iff)
  then obtain v where v: "map_of ?kv p = Some v"
    by (cases "map_of ?kv p") (auto simp: map_of_eq_None_iff)
  then have "(p, v) \<in> set ?kv"
    by (rule map_of_SomeD)
  then obtain c where "v = File c"
    by auto
  with v show ?thesis
    by (simp add: fs_save_charts)
qed

lemma step_ok_dirs:
  "\<forall>p. m p = Some Dir \<longleftrightarrow> m' p = Some Dir \<Longrightarrow>
   step_ok lib dm dc r m q = step_ok lib dm dc r m' q"
  by (simp add: step_ok_def split: sum.splits)

lemma restrict_added: "(m ++ n) |` dom n = n"
  by (rule ext) (auto simp: restrict_map_def map_add_def dom_def split: option.splits)

lemma map_add_restrict_self: "m ++ (m |` S) = m"
  by (rule ext) (auto simp: restrict_map_def map_add_def split: option.splits)

text \<open>
  C7. After a run that ended without error, take a second run in the same working
  directory, with the same input documents, on a file system that has the directories the
  first run left: the one it left, or that one with the files changed, for instance with
  something else in the place of a chart. The second run ends without error although
  \<^verbatim>\<open>results\<close> exists now. It saves the same paths, all of them existing files by then,
  and each of them holds afterwards what the first run wrote there, whatever it held
  before; everything else is as it was.
\<close>

theorem second_run_overwrites:
  assumes "main lib argv (start d f) = (None, w1)"
    and "argv_at argv 1 = Inr a1" "argv_at argv 2 = Inr a2"
    and "load (start d g) a1 = load (start d f) a1"
    and "load (start d g) a2 = load (start d f) a2"
    and "\<forall>p. g p = Some Dir \<longleftrightarrow> fs w1 p = Some Dir"
  shows "main lib argv (start d g) = (None, w1\<lparr>fs := g ++ (fs w1 |` set (saved w1))\<rparr>) \<and>
     (\<forall>p \<in> set (saved w1). \<exists>c. fs w1 p = Some (File c))"
proof -
  let ?r = "d @ [''results'']"
  let ?W = "(prepared (start d f))\<lparr>cwd := ?r\<rparr>"
  have s: "cwd (start d h) = d" "fs (start d h) = h" for h
    by (simp_all add: start_def)
  have n: "fst (main lib argv (start d f)) = None"
    using assms(1) by simp
  from main_None [OF n] assms(2,3) obtain dm dc where
    p: "f ?r = Some Dir \<or> f ?r = None \<and> f d = Some Dir"
    and l: "load (start d f) a1 = Inr dm" "load (start d f) a2 = Inr dc"
    by (auto simp: s)
  let ?kv = "rev (map (\<lambda>q. (resolve ?r (savefig_name (q @ ''.png'')), File (Png (chart dm dc q)))) (keys dm))"
  have "main lib argv (start d f) = loop lib dm dc (keys dm) ?W"
    using main_ok [of "start d f" argv a1 a2 dm dc lib] p assms(2,3) l by (simp add: s)
  then have lp: "loop lib dm dc (keys dm) ?W = (None, w1)"
    using assms(1) by simp
  have pl: "plots (fig ?W) = []"
    by (simp add: prepared_start)
  have st: "\<forall>q \<in> set (keys dm). step_ok lib dm dc (cwd ?W) (fs ?W) q"
    using pl by (rule loop_None) (simp add: lp)
  have w1: "w1 = save_charts dm dc (keys dm) ?W"
    using loop_ok [OF pl st] lp by simp
  have rd: "fs ?W ?r = Some Dir"
    using p by (auto simp: prepared_start)
  have "fs (snd (loop lib dm dc (keys dm) ?W)) ?r = Some Dir"
    using rd by (rule loop_keeps_dirs)
  then have r1: "fs w1 ?r = Some Dir"
    by (simp add: lp)
  then have gr: "g ?r = Some Dir"
    using assms(6) by simp
  let ?V = "start d g"
  have pv: "prepared ?V = ?V"
    using gr by (simp add: prepared_def s)
  have V: "?V\<lparr>cwd := ?r\<rparr> = ?W\<lparr>fs := g\<rparr>"
    by (simp add: start_def prepared_def)
  have f1: "fs w1 = fs ?W ++ map_of ?kv"
    unfolding w1 fs_save_charts by simp
  have sv: "saved w1 = map fst (rev ?kv)"
    unfolding w1 saved_save_charts by (simp add: prepared_start rev_map comp_def)
  have dm: "dom (map_of ?kv) = set (saved w1)"
    unfolding sv by (simp only: dom_map_of_conv_image_fst set_map set_rev rev_rev_ident)
  have st2: "\<forall>q \<in> set (keys dm). step_ok lib dm dc ?r (fs (prepared ?V)) q"
  proof
    fix q assume q: "q \<in> set (keys dm)"
    have "step_ok lib dm dc ?r g q = step_ok lib dm dc ?r (fs w1) q"
      using assms(6) by (rule step_ok_dirs)
    also have "\<dots> = step_ok lib dm dc ?r (fs ?W) q"
      using step_ok_save_charts [OF st, of q] by (simp add: w1)
    finally show "step_ok lib dm dc ?r (fs (prepared ?V)) q"
      using st q by (simp add: pv s)
  qed
  have "main lib argv ?V = (None, save_charts dm dc (keys dm) ((prepared ?V)\<lparr>cwd := ?r\<rparr>))"
    using gr assms(2,3) l assms(4,5) st2 by (intro main_charts) simp_all
  also have "save_charts dm dc (keys dm) ((prepared ?V)\<lparr>cwd := ?r\<rparr>) =
      (save_charts dm dc (keys dm) ?W)\<lparr>fs := g ++ map_of ?kv\<rparr>"
    unfolding pv V save_charts_fs by simp
  also have "map_of ?kv = fs w1 |` set (saved w1)"
    unfolding f1 dm [symmetric] by (rule restrict_added [symmetric])
  finally have a: "main lib argv ?V = (None, w1\<lparr>fs := g ++ (fs w1 |` set (saved w1))\<rparr>)"
    by (simp add: w1 [symmetric])
  have "saved ?W = []"
    by (simp add: prepared_start)
  then have b: "\<forall>p \<in> set (saved w1). \<exists>c. fs w1 p = Some (File c)"
    unfolding w1 using saved_are_files [of _ dm dc "keys dm" ?W] by simp
  from a b show ?thesis ..
qed

theorem second_run_overwrites_witness:
  "main accepting demo_argv (start [''work''] (demo_fs scenario_master scenario_current)) =
     (None, snd (main accepting demo_argv (start [''work''] (demo_fs scenario_master scenario_current)))) \<and>
   saved (snd (main accepting demo_argv (start [''work''] (demo_fs scenario_master scenario_current)))) =
     [[''work'', ''results'', ''cat1.png'']] \<and>
   stale_fs [''work'', ''results'', ''cat1.png''] = Some (File Other) \<and>
   fst (main accepting demo_argv (start [''work''] stale_fs)) = None \<and>
   fs (snd (main accepting demo_argv (start [''work''] stale_fs))) [''work'', ''results'', ''cat1.png''] =
     Some (File (Png \<lparr>plots = [scenario_table], size_inches = (15.5, 1.2)\<rparr>)) \<and>
   main accepting demo_argv
     (start [''work''] (fs (snd (main accepting demo_argv (start [''work''] (demo_fs scenario_master scenario_current)))))) =
     (None, snd (main accepting demo_argv (start [''work''] (demo_fs scenario_master scenario_current))))"
proof -
  let ?w1 = "snd (main accepting demo_argv (start [''work''] (demo_fs scenario_master scenario_current)))"
  let ?t = "[''work'', ''results'', ''cat1.png'']"
  have "fst (main accepting demo_argv (start [''work''] (demo_fs scenario_master scenario_current))) = None"
    by (simp add: run_defs)
  then have 1: "main accepting demo_argv (start [''work''] (demo_fs scenario_master scenario_current)) = (None, ?w1)"
    by (simp add: prod_eq_iff)
  have 2: "argv_at demo_argv 1 = Inr ''master.json''" and 3: "argv_at demo_argv 2 = Inr ''current.json''"
    by (simp_all add: argv_at_def demo_argv_def)
  have sv: "saved ?w1 = [?t]"
    by (simp add: run_defs)
  have tf: "fs ?w1 ?t = Some (File (Png \<lparr>plots = [scenario_table], size_inches = (15.5, 1.2)\<rparr>))"
    by (simp add: run_defs scenario_table_def)
  have st: "stale_fs ?t = Some (File Other)"
    by (simp add: stale_fs_def)
  have 4: "load (start [''work''] stale_fs) ''master.json'' =
           load (start [''work''] (demo_fs scenario_master scenario_current)) ''master.json''"
    and 5: "load (start [''work''] stale_fs) ''current.json'' =
           load (start [''work''] (demo_fs scenario_master scenario_current)) ''current.json''"
    by (simp_all add: run_defs stale_fs_def)
  have 6: "\<forall>p. stale_fs p = Some Dir \<longleftrightarrow> fs ?w1 p = Some Dir"
    using tf by (simp add: stale_fs_def)
  have m4: "load (start [''work''] (fs ?w1)) ''master.json'' =
           load (start [''work''] (demo_fs scenario_master scenario_current)) ''master.json''"
    and m5: "load (start [''work''] (fs ?w1)) ''current.json'' =
           load (start [''work''] (demo_fs scenario_master scenario_current)) ''current.json''"
    by (simp_all add: run_defs)
  have m6: "\<forall>p. fs ?w1 p = Some Dir \<longleftrightarrow> fs ?w1 p = Some Dir"
    by simp
  have a: "main accepting demo_argv (start [''work''] stale_fs) =
      (None, ?w1\<lparr>fs := stale_fs ++ (fs ?w1 |` set (saved ?w1))\<rparr>)"
    using second_run_overwrites [OF 1 2 3 4 5 6] by (rule conjunct1)
  have a1: "fst (main accepting demo_argv (start [''work''] stale_fs)) = None"
    unfolding a by simp
  have a2: "fs (snd (main accepting demo_argv (start [''work''] stale_fs))) ?t =
      Some (File (Png \<lparr>plots = [scenario_table], size_inches = (15.5, 1.2)\<rparr>))"
    unfolding a sv using tf by (simp add: map_add_def restrict_map_def)
  have "main accepting demo_argv (start [''work''] (fs ?w1)) =
      (None, ?w1\<lparr>fs := fs ?w1 ++ (fs ?w1 |` set (saved ?w1))\<rparr>)"
    using second_run_overwrites [OF 1 2 3 m4 m5 m6] by (rule conjunct1)
  then have b: "main accepting demo_argv (start [''work''] (fs ?w1)) = (None, ?w1)"
    unfolding map_add_restrict_self by simp
  show ?thesis
    by (intro conjI) (rule 1, rule sv, rule st, rule a1, rule a2, rule b)
qed

end
